theory Spec2Isabelle
  imports Complex_Main "HOL-Library.Product_Lexorder"
begin

section \<open>Floating-point arithmetic\<close>

text \<open>
  A Python \<open>float\<close> is an IEEE 754 binary64 number. A finite float is a real number, and
  an arithmetic operation of the code returns the exact result of the operation rounded
  to a float. The rounding function is a parameter \<open>rnd\<close> of the model: the sum \<open>a + b\<close>
  of the code is \<open>fadd rnd a b = rnd (a + b)\<close>, and likewise for the difference, the
  product and the quotient. A decimal literal that is not a binary fraction, such as
  \<open>0.18\<close>, denotes the float \<open>rnd 0.18\<close>; a literal that is one (\<open>0.0\<close>, \<open>0.5\<close>, \<open>3.0\<close>,
  \<open>1000\<close>, \<open>16000.0\<close>) denotes itself. Comparisons, \<open>max\<close>, \<open>min\<close> and the built-in
  \<open>round\<close> are exact on floats.

  A theorem holds for every \<open>rnd\<close> that satisfies the assumptions it states, at most that
  \<open>rnd\<close> is monotone, which rounding to the nearest float is. Under \<open>exact\<close>, the
  rounding that changes nothing, the operations are those of the real numbers; the
  examples are computed under it, at inputs where the floating-point operations of the
  code are exact or where their rounding error does not change a comparison.
  Infinities and NaN are not modelled.
\<close>

type_synonym rounding = "real \<Rightarrow> real"

definition fadd :: "rounding \<Rightarrow> real \<Rightarrow> real \<Rightarrow> real" where
  "fadd rnd a b = rnd (a + b)"

definition fsub :: "rounding \<Rightarrow> real \<Rightarrow> real \<Rightarrow> real" where
  "fsub rnd a b = rnd (a - b)"

definition fmul :: "rounding \<Rightarrow> real \<Rightarrow> real \<Rightarrow> real" where
  "fmul rnd a b = rnd (a * b)"

definition fdiv :: "rounding \<Rightarrow> real \<Rightarrow> real \<Rightarrow> real" where
  "fdiv rnd a b = rnd (a / b)"

definition exact :: rounding where
  "exact x = x"

section \<open>SRT timestamps (\<open>srt_ts\<close>)\<close>

text \<open>
  Python integers are \<^typ>\<open>int\<close>. The built-in \<open>round\<close> of Python 3 returns the integer
  nearest to the value of the float and rounds a tie to the even neighbour; \<open>py_round\<close>
  does the same. \<open>srt_ms\<close> is the first statement of \<open>srt_ts\<close>, the number of
  milliseconds; the product is a floating-point product.

  \<^verbatim>\<open>
  def srt_ts(seconds: float) -> str:
      ms = int(round(max(0.0, seconds) * 1000))
      hh, ms = divmod(ms, 3600000)
      mm, ms = divmod(ms, 60000)
      ss, ms = divmod(ms, 1000)
      return f"{hh:02d}:{mm:02d}:{ss:02d},{ms:03d}"
  \<close>
  \<open>fmt_d w n\<close> is the format specification \<open>{n:0wd}\<close>: the decimal digits of \<open>n\<close>,
  padded on the left with zeros to width \<open>w\<close> (the sign counts for the width).
\<close>

definition py_round :: "real \<Rightarrow> int" where
  "py_round x =
     (let f = \<lfloor>x\<rfloor>; d = x - of_int f
      in if d < 1 / 2 then f else if 1 / 2 < d then f + 1
         else if even f then f else f + 1)"

definition digit_char :: "nat \<Rightarrow> char" where
  "digit_char d = char_of (48 + d)"



fun dec_digits :: "nat \<Rightarrow> string" where
  "dec_digits n = (if n < 10 then [digit_char n] else dec_digits (n div 10) @ [digit_char (n mod 10)])"

declare dec_digits.simps [simp del]

definition zfill :: "nat \<Rightarrow> string \<Rightarrow> string" where
  "zfill w s = replicate (w - length s) (CHR ''0'') @ s"

definition fmt_d :: "nat \<Rightarrow> int \<Rightarrow> string" where
  "fmt_d w n = (if n < 0 then CHR ''-'' # zfill (w - 1) (dec_digits (nat (- n)))
                else zfill w (dec_digits (nat n)))"

definition srt_ms :: "rounding \<Rightarrow> real \<Rightarrow> int" where
  "srt_ms rnd seconds = py_round (fmul rnd (max 0 seconds) 1000)"

definition srt_ts :: "rounding \<Rightarrow> real \<Rightarrow> string" where
  "srt_ts rnd seconds =
     (let ms = srt_ms rnd seconds;
          hh = ms div 3600000; ms = ms mod 3600000;
          mm = ms div 60000; ms = ms mod 60000;
          ss = ms div 1000; ms = ms mod 1000
      in fmt_d 2 hh @ '':'' @ fmt_d 2 mm @ '':'' @ fmt_d 2 ss @ '','' @ fmt_d 3 ms)"



section \<open>Text: splitting a transcript into subtitle lines\<close>

text \<open>
  A Python \<open>str\<close> is a sequence of Unicode code points, and \<open>len\<close> counts code points,
  so a text is a list of code points (\<^typ>\<open>nat\<close>). Language codes and model names are
  ASCII (\<open>api_start\<close> accepts only the members of \<open>SUPPORTED_LANG\<close> and
  \<open>SUPPORTED_MODELS\<close>) and are plain \<^typ>\<open>string\<close>s.

  \<open>is_space\<close> is the class \<open>\s\<close> of a \<open>str\<close> pattern and the set \<open>str.strip()\<close> removes:
  U+0009..U+000D, U+001C..U+0020, U+0085, U+00A0, U+1680, U+2000..U+200A, U+2028, U+2029,
  U+202F, U+205F and U+3000.
\<close>

type_synonym ustr = "nat list"

definition is_space :: "nat \<Rightarrow> bool" where
  "is_space c \<longleftrightarrow>
     (9 \<le> c \<and> c \<le> 13) \<or> (28 \<le> c \<and> c \<le> 32) \<or> c = 133 \<or> c = 160 \<or> c = 5760
     \<or> (8192 \<le> c \<and> c \<le> 8202) \<or> c = 8232 \<or> c = 8233 \<or> c = 8239 \<or> c = 8287
     \<or> c = 12288"

definition strip :: "ustr \<Rightarrow> ustr" where
  "strip s = rev (dropWhile is_space (rev (dropWhile is_space s)))"

definition is_alnum_ascii :: "nat \<Rightarrow> bool" where
  "is_alnum_ascii c \<longleftrightarrow>
     (65 \<le> c \<and> c \<le> 90) \<or> (97 \<le> c \<and> c \<le> 122) \<or> (48 \<le> c \<and> c \<le> 57)"

text \<open>
  \<open>re.search(r"[A-Za-z0-9]$", cur)\<close>: the anchor \<open>$\<close> matches at the end of the string and
  also just before a newline that ends it.
\<close>

definition ends_alnum :: "ustr \<Rightarrow> bool" where
  "ends_alnum s =
     (case rev s of
        [] \<Rightarrow> False
      | c # r \<Rightarrow> is_alnum_ascii c \<or>
                 (c = 10 \<and> (case r of [] \<Rightarrow> False | d # _ \<Rightarrow> is_alnum_ascii d)))"

text \<open>
  \<open>re.split(r"(?<=[S])\s+", text)\<close> for a set \<open>S\<close> of characters that are not white space:
  a match starts at a white-space character whose left neighbour is in \<open>S\<close> and takes the
  whole run of white space (\<open>\s+\<close> is greedy); the pieces between the matches are returned,
  the empty piece after a match at the very end included. The scan keeps the character
  before the position (\<open>prev\<close>), whether it is inside a match (\<open>skipping\<close>) and the piece
  read so far (\<open>cur\<close>).
\<close>

fun re_split_ws_after ::
  "(nat \<Rightarrow> bool) \<Rightarrow> nat option \<Rightarrow> bool \<Rightarrow> ustr \<Rightarrow> ustr \<Rightarrow> ustr list" where
  "re_split_ws_after S prev skipping cur [] = [cur]"
| "re_split_ws_after S prev skipping cur (c # cs) =
     (if skipping \<and> is_space c then re_split_ws_after S prev True cur cs
      else if is_space c \<and> (case prev of Some p \<Rightarrow> S p | None \<Rightarrow> False)
      then cur # re_split_ws_after S (Some c) True [] cs
      else re_split_ws_after S (Some c) False (cur @ [c]) cs)"

text \<open>
  The sentence-final characters of \<open>_split_by_punctuation\<close>: U+3002, U+FF01, U+FF1F,
  \<open>!\<close>, \<open>?\<close>, U+FF1B, \<open>;\<close>, U+2026 and the full stop.
  \<^verbatim>\<open>
  def _split_by_punctuation(text, language="auto"):
      if not text:
          return []
      parts = re.split(r"(?<=[...])\s+", text)
      if language == "en":
          tmp = []
          for p in parts:
              p = p.strip()
              if len(p) > 72 and re.search(r",|;", p):
                  tmp.extend([x for x in re.split(r"(?<=[,;])\s+", p) if x.strip()])
              else:
                  tmp.append(p)
          parts = tmp
      out = []
      for p in parts:
          p = p.strip()
          if p:
              out.append(p)
      return out if out else [text]
  \<close>
\<close>

definition sentence_final :: "nat \<Rightarrow> bool" where
  "sentence_final c \<longleftrightarrow>
     c = 12290 \<or> c = 65281 \<or> c = 65311 \<or> c = 33 \<or> c = 63 \<or> c = 65307 \<or> c = 59
     \<or> c = 8230 \<or> c = 46"

definition comma_semicolon :: "nat \<Rightarrow> bool" where
  "comma_semicolon c \<longleftrightarrow> c = 44 \<or> c = 59"

definition split_by_punctuation :: "ustr \<Rightarrow> string \<Rightarrow> ustr list" where
  "split_by_punctuation text language =
     (if text = [] then []
      else
        let parts = re_split_ws_after sentence_final None False [] text;
            parts = (if language = ''en''
                     then concat (map (\<lambda>p0. let p = strip p0 in
                            if 72 < length p \<and> list_ex comma_semicolon p
                            then filter (\<lambda>x. strip x \<noteq> [])
                                   (re_split_ws_after comma_semicolon None False [] p)
                            else [p]) parts)
                     else parts);
            out = filter (\<lambda>p. p \<noteq> []) (map strip parts)
        in if out \<noteq> [] then out else [text])"

text \<open>
  \<open>str.lower()\<close> on an ASCII string, and the substring test \<open>sub in s\<close>.
\<close>

definition ascii_lower :: "string \<Rightarrow> string" where
  "ascii_lower s = map (\<lambda>c. if 65 \<le> (of_char c :: nat) \<and> (of_char c :: nat) \<le> 90
                             then char_of ((of_char c :: nat) + 32) else c) s"

fun contains :: "'a list \<Rightarrow> 'a list \<Rightarrow> bool" where
  "contains sub [] = (sub = [])"
| "contains sub (c # cs) = (take (length sub) (c # cs) = sub \<or> contains sub cs)"

text \<open>
  \<^verbatim>\<open>
  def _char_budget(language, model=""):
      model_l = (model or "").lower()
      if language == "ja": return 20
      if language == "zh": return 24
      if language == "auto" and ("kotoba" in model_l or "whisper" in model_l): return 22
      return 42
  \<close>
\<close>

definition char_budget :: "string \<Rightarrow> string \<Rightarrow> int" where
  "char_budget language model =
     (let model_l = ascii_lower model in
      if language = ''ja'' then 20
      else if language = ''zh'' then 24
      else if language = ''auto'' \<and> (contains ''kotoba'' model_l \<or> contains ''whisper'' model_l)
      then 22
      else 42)"

text \<open>
  The first two statements of \<open>split_text_for_srt\<close>:
  \<^verbatim>\<open>
  budget = max_chars or _char_budget(language, model=model)
  budget = max(10, min(100, budget))
  \<close>
  \<open>max_chars\<close> is an \<open>Optional[int]\<close>; \<open>None\<close> and \<open>0\<close> are false.
\<close>

definition srt_budget :: "string \<Rightarrow> int option \<Rightarrow> string \<Rightarrow> int" where
  "srt_budget language max_chars model =
     (let budget = (case max_chars of
                      None \<Rightarrow> char_budget language model
                    | Some m \<Rightarrow> if m = 0 then char_budget language model else m)
      in max 10 (min 100 budget))"

text \<open>
  The hard cut of an over-long sentence:
  \<^verbatim>\<open>
  start = 0
  while start < len(s):
      lines.append(s[start : start + budget])
      start += budget
  \<close>
  The budget is at least 10 when the loop is reached; with a budget of 0 the Python loop
  would not end, and the function below returns no piece there.
\<close>

function hard_cut :: "nat \<Rightarrow> ustr \<Rightarrow> ustr list" where
  "hard_cut budget s =
     (if s = [] \<or> budget = 0 then [] else take budget s # hard_cut budget (drop budget s))"
  by pat_completeness auto
termination
  by (relation "measure (\<lambda>(b, s). length s)") auto

declare hard_cut.simps [simp del]

text \<open>
  \<^verbatim>\<open>
  def flush():
      c = cur.strip()
      if c: lines.append(c)
      cur = ""

  for s in sentences:
      s = s.strip()
      if not s: continue
      if len(s) > budget * 1.8:
          flush()
          (hard cut of s)
          continue
      if not cur:
          cur = s
          continue
      candidate = f"{cur} {s}" if re.search(r"[A-Za-z0-9]$", cur) else f"{cur}{s}"
      if len(candidate) <= budget:
          cur = candidate
      else:
          flush()
          cur = s
  flush()
  \<close>
  \<open>flush\<close> returns the new \<open>lines\<close>; the caller resets \<open>cur\<close>.
\<close>

definition flush :: "ustr list \<Rightarrow> ustr \<Rightarrow> ustr list" where
  "flush lines cur = (let c = strip cur in if c \<noteq> [] then lines @ [c] else lines)"

fun pack_sentences :: "int \<Rightarrow> ustr list \<Rightarrow> ustr \<Rightarrow> ustr list \<Rightarrow> ustr list \<times> ustr" where
  "pack_sentences budget lines cur [] = (lines, cur)"
| "pack_sentences budget lines cur (s0 # ss) =
     (let s = strip s0 in
      if s = [] then pack_sentences budget lines cur ss
      else if real_of_int budget * 1.8 < real (length s)
      then pack_sentences budget (flush lines cur @ hard_cut (nat budget) s) [] ss
      else if cur = [] then pack_sentences budget lines s ss
      else
        let candidate = (if ends_alnum cur then cur @ [32] @ s else cur @ s) in
        if int (length candidate) \<le> budget then pack_sentences budget lines candidate ss
        else pack_sentences budget (flush lines cur) s ss)"

text \<open>
  \<^verbatim>\<open>
  merged = []
  for line in lines:
      if not merged:
          merged.append(line)
          continue
      if len(line) < max(4, budget // 5) and len(merged[-1]) + len(line) + 1 <= budget + 6:
          sep = " " if re.search(r"[A-Za-z0-9]$", merged[-1]) else ""
          merged[-1] += sep + line
      else:
          merged.append(line)
  return merged
  \<close>
\<close>

fun merge_short_lines :: "int \<Rightarrow> ustr list \<Rightarrow> ustr list \<Rightarrow> ustr list" where
  "merge_short_lines budget merged [] = merged"
| "merge_short_lines budget merged (line # ls) =
     (if merged = [] then merge_short_lines budget [line] ls
      else if int (length line) < max 4 (budget div 5)
              \<and> int (length (last merged)) + int (length line) + 1 \<le> budget + 6
      then merge_short_lines budget
             (butlast merged
              @ [last merged @ (if ends_alnum (last merged) then [32] else []) @ line]) ls
      else merge_short_lines budget (merged @ [line]) ls)"

definition split_text_for_srt :: "ustr \<Rightarrow> string \<Rightarrow> int option \<Rightarrow> string \<Rightarrow> ustr list" where
  "split_text_for_srt text language max_chars model =
     (if text = [] then []
      else
        let budget = srt_budget language max_chars model;
            sentences = split_by_punctuation text language;
            (lines, cur) = pack_sentences budget [] [] sentences;
            lines = flush lines cur
        in merge_short_lines budget [] lines)"

section \<open>Text: \<open>normalize_transcript_text\<close>\<close>

text \<open>
  The substitutions of \<open>normalize_transcript_text\<close> all act on maximal runs of characters,
  and each is one left-to-right scan.

  \<open>sub_runs P k\<close> is \<open>re.sub(r"[P]{k,}", " ", x)\<close> for a character class \<open>P\<close> and \<open>k \<ge> 1\<close>: a
  maximal run of at least \<open>k\<close> characters of the class becomes one space (the quantifier is
  greedy, so a match is a whole run; a shorter run has no match). The scan keeps the run
  read so far.
\<close>

fun sub_runs :: "(nat \<Rightarrow> bool) \<Rightarrow> nat \<Rightarrow> ustr \<Rightarrow> ustr \<Rightarrow> ustr" where
  "sub_runs P k run [] = (if run \<noteq> [] \<and> k \<le> length run then [32] else run)"
| "sub_runs P k run (c # cs) =
     (if P c then sub_runs P k (run @ [c]) cs
      else (if run \<noteq> [] \<and> k \<le> length run then [32] else run) @ c # sub_runs P k [] cs)"

text \<open>
  \<open>del_ws L R\<close> deletes every maximal run of white space whose left neighbour satisfies \<open>L\<close>
  and whose right neighbour satisfies \<open>R\<close> (\<open>None\<close> is the start or the end of the text).
  It is the substitution by the empty string, or by the group alone, of the patterns
  \<^item> \<open>(?<=[A])\s+(?=[B])\<close> with \<open>L = in_class A\<close>, \<open>R = in_class B\<close>;
  \<^item> \<open>\s+([B])\<close>, replaced by the group, with \<open>L\<close> always true and \<open>R = in_class B\<close>;
  \<^item> \<open>([A])\s+\<close>, replaced by the group, with \<open>L = in_class A\<close> and \<open>R\<close> always true.

  In each, \<open>\s+\<close> is greedy and what follows it cannot be white space, so a match takes a
  whole run; look-behind and look-ahead read the text as it was before the substitution.
  The scan keeps the last character before the run (\<open>prev\<close>) and the run read so far.
\<close>

fun del_ws ::
  "(nat option \<Rightarrow> bool) \<Rightarrow> (nat option \<Rightarrow> bool) \<Rightarrow> nat option \<Rightarrow> ustr \<Rightarrow> ustr \<Rightarrow> ustr" where
  "del_ws L R prev run [] = (if run \<noteq> [] \<and> L prev \<and> R None then [] else run)"
| "del_ws L R prev run (c # cs) =
     (if is_space c then del_ws L R prev (run @ [c]) cs
      else (if run \<noteq> [] \<and> L prev \<and> R (Some c) then [] else run)
           @ c # del_ws L R (Some c) [] cs)"

definition in_class :: "(nat \<Rightarrow> bool) \<Rightarrow> nat option \<Rightarrow> bool" where
  "in_class A x = (case x of None \<Rightarrow> False | Some c \<Rightarrow> A c)"

definition anything :: "nat option \<Rightarrow> bool" where
  "anything x = True"

text \<open>
  \<open>squeeze\<close> is \<open>re.sub(r"([!?...])\1{2,}", r"\1\1", x)\<close>: a maximal run of three or more
  copies of one of these characters becomes two copies. The scan keeps the character of
  the run it is in (if any) and the length of the run so far.
\<close>

definition repeatable :: "nat \<Rightarrow> bool" where
  "repeatable c \<longleftrightarrow>
     c = 0x21 \<or> c = 0x3F \<or> c = 0xFF01 \<or> c = 0xFF1F \<or> c = 0x3002 \<or> c = 0x2E \<or> c = 0x2C
     \<or> c = 0xFF0C"

definition emit_run :: "nat option \<Rightarrow> nat \<Rightarrow> ustr" where
  "emit_run r n = (case r of None \<Rightarrow> [] | Some c \<Rightarrow> replicate (min n 2) c)"

fun squeeze :: "nat option \<Rightarrow> nat \<Rightarrow> ustr \<Rightarrow> ustr" where
  "squeeze r n [] = emit_run r n"
| "squeeze r n (c # cs) =
     (if r = Some c then squeeze r (Suc n) cs
      else emit_run r n
           @ (if repeatable c then squeeze (Some c) 1 cs else c # squeeze None 0 cs))"

text \<open>
  The character classes of the patterns: the CJK ranges U+4E00..U+9FFF, U+3040..U+30FF,
  U+31F0..U+31FF and U+AC00..U+D7AF; the punctuation before which white space is removed;
  opening and closing brackets; the full-width punctuation of the last step; and
  \<open>[\t\r\f\v]\<close>.
\<close>

definition cjk :: "nat \<Rightarrow> bool" where
  "cjk c \<longleftrightarrow>
     (0x4E00 \<le> c \<and> c \<le> 0x9FFF) \<or> (0x3040 \<le> c \<and> c \<le> 0x30FF) \<or> (0x31F0 \<le> c \<and> c \<le> 0x31FF)
     \<or> (0xAC00 \<le> c \<and> c \<le> 0xD7AF)"

definition punct_before :: "nat \<Rightarrow> bool" where
  "punct_before c \<longleftrightarrow>
     c = 0x2C \<or> c = 0xFF0C \<or> c = 0x3002 \<or> c = 0xFF01 \<or> c = 0xFF1F \<or> c = 0x21 \<or> c = 0x3F
     \<or> c = 0x3A \<or> c = 0xFF1A \<or> c = 0xFF1B \<or> c = 0x3B"

definition open_bracket :: "nat \<Rightarrow> bool" where
  "open_bracket c \<longleftrightarrow> c = 0x28 \<or> c = 0xFF08 \<or> c = 0x5B \<or> c = 0x3010 \<or> c = 0x7B"

definition close_bracket :: "nat \<Rightarrow> bool" where
  "close_bracket c \<longleftrightarrow> c = 0x29 \<or> c = 0xFF09 \<or> c = 0x5D \<or> c = 0x3011 \<or> c = 0x7D"

definition cjk_punct :: "nat \<Rightarrow> bool" where
  "cjk_punct c \<longleftrightarrow>
     c = 0xFF0C \<or> c = 0x3002 \<or> c = 0xFF01 \<or> c = 0xFF1F \<or> c = 0x3001 \<or> c = 0xFF1B
     \<or> c = 0xFF1A"

definition tab_like :: "nat \<Rightarrow> bool" where
  "tab_like c \<longleftrightarrow> c = 9 \<or> c = 13 \<or> c = 12 \<or> c = 11"

text \<open>
  \<^verbatim>\<open>
  def normalize_transcript_text(text, language="auto", model=""):
      if not text:
          return ""
      x = html.unescape(str(text))
      x = x.replace("\u3000", " ")
      x = re.sub(r"[\t\r\f\v]+", " ", x)
      x = re.sub(r"\n+", " ", x)
      x = re.sub(r"\s{2,}", " ", x).strip()
      cjk = r"\u4e00-\u9fff\u3040-\u30ff\u31f0-\u31ff\uac00-\ud7af"
      x = re.sub(rf"(?<=[{cjk}])\s+(?=[{cjk}])", "", x)
      x = re.sub(r"\s+([,...;])", r"\1", x)
      x = re.sub(r"([\(...{])\s+", r"\1", x)
      x = re.sub(r"\s+([\)...}])", r"\1", x)
      x = re.sub(r"([!?...])\1{2,}", r"\1\1", x)
      model_l = (model or "").lower()
      if language in {"zh", "ja", "auto"} or "whisper" in model_l or "kotoba" in model_l:
          x = re.sub(rf"(?<=[{cjk}])\s+(?=[{cjk}])", "", x)
          x = re.sub(rf"(?<=[{cjk}])\s+(?=[...])", "", x)
          x = re.sub(rf"(?<=[...])\s+(?=[{cjk}])", "", x)
      return x.strip()
  \<close>
  \<open>html.unescape\<close> belongs to Python's standard library, not to the program; it is the
  parameter \<open>unescape\<close>. The steps are named so that they can be referred to one by one.
\<close>

definition replace_ideographic_space :: "ustr \<Rightarrow> ustr" where
  "replace_ideographic_space x = map (\<lambda>c. if c = 0x3000 then 0x20 else c) x"

definition collapse_space :: "ustr \<Rightarrow> ustr" where
  "collapse_space x =
     strip (sub_runs is_space 2 []
       (sub_runs (\<lambda>c. c = 10) 1 [] (sub_runs tab_like 1 [] (replace_ideographic_space x))))"

definition tidy_punctuation :: "ustr \<Rightarrow> ustr" where
  "tidy_punctuation x =
     squeeze None 0
       (del_ws anything (in_class close_bracket) None []
         (del_ws (in_class open_bracket) anything None []
           (del_ws anything (in_class punct_before) None []
             (del_ws (in_class cjk) (in_class cjk) None [] x))))"

definition cjk_tighten :: "ustr \<Rightarrow> ustr" where
  "cjk_tighten x =
     del_ws (in_class cjk_punct) (in_class cjk) None []
       (del_ws (in_class cjk) (in_class cjk_punct) None []
         (del_ws (in_class cjk) (in_class cjk) None [] x))"

definition wants_cjk_tighten :: "string \<Rightarrow> string \<Rightarrow> bool" where
  "wants_cjk_tighten language model =
     (let model_l = ascii_lower model in
      language = ''zh'' \<or> language = ''ja'' \<or> language = ''auto''
      \<or> contains ''whisper'' model_l \<or> contains ''kotoba'' model_l)"

definition normalize_transcript_text :: "(ustr \<Rightarrow> ustr) \<Rightarrow> ustr \<Rightarrow> string \<Rightarrow> string \<Rightarrow> ustr" where
  "normalize_transcript_text unescape text language model =
     (if text = [] then []
      else
        let x = tidy_punctuation (collapse_space (unescape text));
            x = (if wants_cjk_tighten language model then cjk_tighten x else x)
        in strip x)"

text \<open>
  An instance of the parameter, for concrete inputs: \<open>unescape_amp\<close> decodes the character
  reference \<open>&amp;\<close> (in one pass, left to right) and leaves everything else as it is. It
  agrees with \<open>html.unescape\<close> on every text in which each \<open>&\<close> begins \<open>&amp;\<close>, and on every
  text without \<open>&\<close>.
\<close>

fun unescape_amp :: "ustr \<Rightarrow> ustr" where
  "unescape_amp [] = []"
| "unescape_amp (c # cs) =
     (if c = 38 \<and> take 4 cs = [97, 109, 112, 59] then 38 # unescape_amp (drop 4 cs)
      else c # unescape_amp cs)"

section \<open>Cues: \<open>allocate_line_times\<close> and \<open>build_srt\<close>\<close>

text \<open>
  A cue is the Python tuple \<open>(start, end, text)\<close>.
  \<^verbatim>\<open>
  def allocate_line_times(seg_start, seg_end, lines):
      if not lines:
          return []
      dur = max(0.2, seg_end - seg_start)
      if len(lines) == 1:
          return [(seg_start, seg_end, lines[0])]
      weights = [max(1, len(x)) for x in lines]
      total_w = sum(weights)
      t = seg_start
      cues = []
      for i, line in enumerate(lines):
          if i == len(lines) - 1:
              nxt = seg_end
          else:
              piece = dur * (weights[i] / total_w)
              piece = max(0.3, piece)
              nxt = min(seg_end, t + piece)
          cues.append((t, nxt, line))
          t = nxt
      fixed = []
      prev_end = seg_start
      for s, e, txt in cues:
          s = max(s, prev_end)
          e = max(e, s + 0.18)
          fixed.append((s, e, txt))
          prev_end = e
      if fixed:
          s, _, txt = fixed[-1]
          fixed[-1] = (s, max(s + 0.18, seg_end), txt)
      return fixed
  \<close>
  \<open>slice_lines\<close> is the first loop (over the lines paired with their weights; the last
  pair is the case \<open>i == len(lines) - 1\<close>), \<open>fix_overlap\<close> the second, \<open>stick_last\<close> the
  final assignment to \<open>fixed[-1]\<close>. The quotient \<open>weights[i] / total_w\<close> of two integers
  is the float nearest to the exact quotient.
\<close>

type_synonym cue = "real \<times> real \<times> ustr"

definition cue_start :: "cue \<Rightarrow> real" where
  "cue_start c = fst c"

definition cue_end :: "cue \<Rightarrow> real" where
  "cue_end c = fst (snd c)"

definition cue_text :: "cue \<Rightarrow> ustr" where
  "cue_text c = snd (snd c)"

fun slice_lines ::
  "rounding \<Rightarrow> real \<Rightarrow> real \<Rightarrow> nat \<Rightarrow> real \<Rightarrow> (nat \<times> ustr) list \<Rightarrow> cue list" where
  "slice_lines rnd seg_end dur total_w t [] = []"
| "slice_lines rnd seg_end dur total_w t [(w, line)] = [(t, seg_end, line)]"
| "slice_lines rnd seg_end dur total_w t ((w, line) # rest) =
     (let piece = fmul rnd dur (fdiv rnd (real w) (real total_w));
          piece = max (rnd 0.3) piece;
          nxt = min seg_end (fadd rnd t piece)
      in (t, nxt, line) # slice_lines rnd seg_end dur total_w nxt rest)"

fun fix_overlap :: "rounding \<Rightarrow> real \<Rightarrow> cue list \<Rightarrow> cue list" where
  "fix_overlap rnd prev_end [] = []"
| "fix_overlap rnd prev_end ((s0, e0, line) # cs) =
     (let s = max s0 prev_end; e = max e0 (fadd rnd s (rnd 0.18))
      in (s, e, line) # fix_overlap rnd e cs)"

definition stick_last :: "rounding \<Rightarrow> real \<Rightarrow> cue list \<Rightarrow> cue list" where
  "stick_last rnd seg_end fixed =
     (if fixed = [] then fixed
      else (case last fixed of
              (s, _, line) \<Rightarrow>
                butlast fixed @ [(s, max (fadd rnd s (rnd 0.18)) seg_end, line)]))"

definition allocate_line_times :: "rounding \<Rightarrow> real \<Rightarrow> real \<Rightarrow> ustr list \<Rightarrow> cue list" where
  "allocate_line_times rnd seg_start seg_end lines =
     (if lines = [] then []
      else
        let dur = max (rnd 0.2) (fsub rnd seg_end seg_start) in
        if length lines = 1 then [(seg_start, seg_end, lines ! 0)]
        else
          let weights = map (\<lambda>x. max 1 (length x)) lines;
              total_w = sum_list weights;
              cues = slice_lines rnd seg_end dur total_w seg_start (zip weights lines);
              fixed = fix_overlap rnd seg_start cues
          in stick_last rnd seg_end fixed)"

text \<open>
  Written from the specification, to be compared with \<open>allocate_line_times\<close>: the
  allocation in one pass over two lines or more. \<open>t\<close> is the end of the weighted slices
  given out so far and \<open>start\<close> the end of the cue before. A line that is not the last
  has the slice \<open>max(0.3, dur * weight / total)\<close> after \<open>t\<close>, cut at the end of the segment;
  its cue starts where the cue before ends and ends with its slice, or 0.18 seconds
  (as a floating-point sum) after its start if that is later. The last cue ends with the
  segment, or 0.18 seconds after its start if that is later.
\<close>

fun weighted_cues ::
  "rounding \<Rightarrow> real \<Rightarrow> real \<Rightarrow> nat \<Rightarrow> real \<Rightarrow> real \<Rightarrow> (nat \<times> ustr) list \<Rightarrow> cue list" where
  "weighted_cues rnd seg_end dur total_w t start [] = []"
| "weighted_cues rnd seg_end dur total_w t start [(w, line)] =
     [(start, max seg_end (fadd rnd start (rnd 0.18)), line)]"
| "weighted_cues rnd seg_end dur total_w t start ((w, line) # rest) =
     (let slice = max (rnd 0.3) (fmul rnd dur (fdiv rnd (real w) (real total_w)));
          t' = min seg_end (fadd rnd t slice);
          e = max t' (fadd rnd start (rnd 0.18))
      in (start, e, line) # weighted_cues rnd seg_end dur total_w t' e rest)"

text \<open>
  The result of one segment (\<open>end\<close> is a keyword of Isabelle, so the fields carry the
  prefix \<open>r_\<close>).
\<close>

record SegmentResult =
  r_ok :: bool
  r_idx :: int
  r_start :: real
  r_end :: real
  r_text :: ustr
  r_error :: "ustr option"
  r_code :: int

text \<open>
  \<^verbatim>\<open>
  def build_srt(results, language, model=""):
      results = sorted([r for r in results if r.ok and r.text],
                       key=lambda x: (x.start, x.end, x.idx))
      cues = []
      for r in results:
          lines = split_text_for_srt(r.text, language=language, model=model)
          parts = allocate_line_times(r.start, r.end, lines)
          cues.extend(parts)
      final_cues = []
      prev_end = 0.0
      for s, e, txt in cues:
          txt = txt.strip()
          if not txt:
              continue
          s = max(s, prev_end)
          if e <= s:
              e = s + 0.2
          final_cues.append((s, e, txt))
          prev_end = e
      compact_cues = []
      for s, e, txt in final_cues:
          if compact_cues:
              ps, pe, ptxt = compact_cues[-1]
              if txt == ptxt and s - pe <= 0.12:
                  compact_cues[-1] = (ps, max(pe, e), ptxt)
                  continue
          compact_cues.append((s, e, txt))
      lines_out = []
      for i, (s, e, txt) in enumerate(compact_cues, 1):
          lines_out.append(f"{i}\n{srt_ts(s)} --> {srt_ts(e)}\n{txt}\n")
      return "\n".join(lines_out).strip() + "\n"
  \<close>
  \<open>sorted\<close> is stable, as \<^const>\<open>sort_key\<close> is; tuples compare lexicographically.
  \<open>build_cues\<close> is the function up to \<open>compact_cues\<close>, \<open>build_srt\<close> the whole of it.
  The sweeps of \<open>build_cues\<close> use \<open>max\<close> and comparisons, with the two sums \<open>s + 0.2\<close> and
  \<open>s - pe\<close>, which are taken in exact arithmetic, as is the allocation inside a segment.
\<close>

fun final_sweep :: "real \<Rightarrow> cue list \<Rightarrow> cue list" where
  "final_sweep prev_end [] = []"
| "final_sweep prev_end ((s0, e0, line0) # cs) =
     (let line = strip line0 in
      if line = [] then final_sweep prev_end cs
      else
        let s = max s0 prev_end; e = (if e0 \<le> s then s + 0.2 else e0)
        in (s, e, line) # final_sweep e cs)"

fun compact_cues :: "cue list \<Rightarrow> cue list \<Rightarrow> cue list" where
  "compact_cues acc [] = acc"
| "compact_cues acc ((s, e, line) # cs) =
     (if acc \<noteq> [] \<and> line = cue_text (last acc) \<and> s - cue_end (last acc) \<le> 0.12
      then compact_cues
             (butlast acc
              @ [(cue_start (last acc), max (cue_end (last acc)) e, cue_text (last acc))]) cs
      else compact_cues (acc @ [(s, e, line)]) cs)"

definition build_cues :: "SegmentResult list \<Rightarrow> string \<Rightarrow> string \<Rightarrow> cue list" where
  "build_cues results language model =
     (let results = sort_key (\<lambda>x. (r_start x, r_end x, r_idx x))
                      (filter (\<lambda>r. r_ok r \<and> r_text r \<noteq> []) results);
          cues = concat (map (\<lambda>r. allocate_line_times exact (r_start r) (r_end r)
                                 (split_text_for_srt (r_text r) language None model)) results);
          final_cues = final_sweep 0 cues
      in compact_cues [] final_cues)"

definition ustr_of :: "string \<Rightarrow> ustr" where
  "ustr_of s = map of_char s"

fun join_nl :: "ustr list \<Rightarrow> ustr" where
  "join_nl [] = []"
| "join_nl [x] = x"
| "join_nl (x # xs) = x @ [10] @ join_nl xs"

definition build_srt :: "rounding \<Rightarrow> SegmentResult list \<Rightarrow> string \<Rightarrow> string \<Rightarrow> ustr" where
  "build_srt rnd results language model =
     (let compact = build_cues results language model;
          lines_out = map (\<lambda>(i, (s, e, line)).
                        ustr_of (fmt_d 0 (int i)) @ [10]
                        @ ustr_of (srt_ts rnd s) @ ustr_of '' --> '' @ ustr_of (srt_ts rnd e) @ [10]
                        @ line @ [10])
                      (zip [1 ..< Suc (length compact)] compact)
      in strip (join_nl lines_out) @ [10])"

section \<open>Segmentation: \<open>detect_speech_segments\<close> and \<open>optimize_segments_for_transcription\<close>\<close>



definition env_int :: "int option \<Rightarrow> int \<Rightarrow> int \<Rightarrow> int \<Rightarrow> int" where
  "env_int raw dflt minimum maximum =
     min maximum (max minimum (case raw of None \<Rightarrow> dflt | Some v \<Rightarrow> v))"

record environ =
  env_MAX_SEGMENT_SECONDS :: "real option"
  env_MIN_SEGMENT_SECONDS :: "real option"
  env_MIN_TRANSCRIBE_SEGMENT_SECONDS :: "real option"
  env_SHORT_SEGMENT_MERGE_GAP_SECONDS :: "real option"
  env_DEEPGRAM_API_KEY :: string
  env_HF_TOKEN :: string
  env_LOG_MAX_LINES :: "int option"




definition LOG_MAX_LINES :: "environ \<Rightarrow> int" where
  "LOG_MAX_LINES env = env_int (env_LOG_MAX_LINES env) 1000 100 10000"


text \<open>
  \<^verbatim>\<open>
  @dataclass
  class SpeechSeg:
      start: float
      end: float
      @property
      def dur(self): return max(0.0, self.end - self.start)
  \<close>
\<close>

datatype SpeechSeg = SpeechSeg (seg_start: real) (seg_end: real)

definition dur :: "rounding \<Rightarrow> SpeechSeg \<Rightarrow> real" where
  "dur rnd g = max 0 (fsub rnd (seg_end g) (seg_start g))"









text \<open>The environment in which none of the variables is set: every tunable has its default.\<close>

definition default_environ :: environ where
  "default_environ =
     \<lparr>env_MAX_SEGMENT_SECONDS = None, env_MIN_SEGMENT_SECONDS = None,
      env_MIN_TRANSCRIBE_SEGMENT_SECONDS = None, env_SHORT_SEGMENT_MERGE_GAP_SECONDS = None,
      env_DEEPGRAM_API_KEY = [], env_HF_TOKEN = [], env_LOG_MAX_LINES = None\<rparr>"

section \<open>Transcribing one segment: \<open>transcribe_task\<close>\<close>

text \<open>
  The outside world of \<open>transcribe_task\<close>. An exception is either the
  \<open>subprocess.CalledProcessError\<close> of a failed \<open>ffmpeg\<close> run, with the text
  \<open>e.stderr or e.stdout or str(e)\<close>, or any other exception, with its \<open>str(e)\<close>. \<open>ffmpeg\<close> and
  \<open>html.unescape\<close> are functions given from outside; \<open>ffmpeg_cut ext start duration\<close> is
  \<open>None\<close> when the cut succeeds.

  An answer of a provider is a status code, the body (\<open>resp.text\<close>) and the transcript found
  in the JSON body (\<open>None\<close> when reading the JSON raises; \<open>null\<close> or a missing key is the
  empty text), or a failure of the request itself. The state of the world holds the
  answers still to come, the POST requests made so far, the cuts made so far and the
  content of the segment file, which is the window last cut.
\<close>

datatype exn = CalledProcessError ustr | Exception ustr

record externals =
  html_unescape :: "ustr \<Rightarrow> ustr"
  ffmpeg_cut :: "real \<Rightarrow> real \<Rightarrow> exn option"

datatype http_reply = Reply int ustr "ustr option" | RequestFailed ustr

datatype lang_param = DetectLanguage | Language string

datatype post = DeepgramPost "real \<times> real" string lang_param | HfPost "real \<times> real"

record world =
  replies :: "http_reply list"
  posts :: "post list"
  cuts :: "(real \<times> real) list"
  seg_file :: "(real \<times> real) option"

text \<open>
  \<^verbatim>\<open>
  def extract_segment_wav(full_wav, out_wav, start, end):
      duration = max(0.0, end - start)
      if duration < 0.01:
          raise ValueError(f"segment too short: start={start:.6f}, end={end:.6f}")
      ensure_parent(out_wav)
      run_cmd(["ffmpeg", ..., "-ss", f"{start:.3f}", "-t", f"{duration:.3f}", ...], timeout=180)
  \<close>
  The text of the \<open>ValueError\<close> is cut down to its fixed part.
\<close>

definition extract_segment_wav ::
  "rounding \<Rightarrow> externals \<Rightarrow> real \<Rightarrow> real \<Rightarrow> world \<Rightarrow> (exn + unit) \<times> world" where
  "extract_segment_wav rnd ext start stop w =
     (let duration = max 0 (fsub rnd stop start) in
      if duration < rnd 0.01 then (Inl (Exception (ustr_of ''segment too short'')), w)
      else (case ffmpeg_cut ext start duration of
              Some e \<Rightarrow> (Inl e, w)
            | None \<Rightarrow> (Inr (), w\<lparr>cuts := cuts w @ [(start, stop)],
                                  seg_file := Some (start, stop)\<rparr>)))"

text \<open>
  One POST request: it is recorded, and the next answer is taken. (A request that finds
  no answer fails, as a request to a host that is down does.)
\<close>

definition send_post :: "post \<Rightarrow> world \<Rightarrow> http_reply \<times> world" where
  "send_post p w =
     (case replies w of
        [] \<Rightarrow> (RequestFailed (ustr_of ''ConnectionError''), w\<lparr>posts := posts w @ [p]\<rparr>)
      | r # rs \<Rightarrow> (r, w\<lparr>posts := posts w @ [p], replies := rs\<rparr>))"

definition replace_newlines :: "ustr \<Rightarrow> ustr" where
  "replace_newlines s = map (\<lambda>c. if c = 10 then 32 else c) s"

text \<open>
  \<^verbatim>\<open>
  def transcribe_with_deepgram(seg_file, model, language, options):
      if not Config.DEEPGRAM_API_KEY:
          return False, "", "DEEPGRAM_API_KEY missing", 0
      (params from the model's defaults and the options)
      if language == "auto":
          params["detect_language"] = "true"
      else:
          params["language"] = language
      with open(seg_file, "rb") as f:
          resp = SESSION.post(dg_url("/listen"), params=params, headers=headers, data=f,
                              timeout=Config.REQUEST_TIMEOUT_SECONDS)
      status = resp.status_code
      if status != 200:
          msg = (resp.text or "")[:180].replace("\n", " ")
          return False, "", f"DG_ERR_{status}: {msg}", status
      try:
          data = resp.json()
          txt = (data.get("results", {}).get("channels", [{}])[0]
                     .get("alternatives", [{}])[0].get("transcript", ""))
          txt = (txt or "").strip()
          if not txt:
              return False, "", "EMPTY_TRANSCRIPT", status
          return True, txt, "", status
      except Exception:
          return False, "", "DG_JSON_PARSE_ERR", status
  \<close>
  Of the query parameters the request records the model and the language parameter; the
  others depend on the model and the options only. The result is the tuple
  \<open>(ok, txt, err, code)\<close>, or the exception raised.
\<close>

definition transcribe_with_deepgram ::
  "environ \<Rightarrow> string \<Rightarrow> string \<Rightarrow> world \<Rightarrow> (exn + bool \<times> ustr \<times> ustr \<times> int) \<times> world" where
  "transcribe_with_deepgram env model language w =
     (if env_DEEPGRAM_API_KEY env = []
      then (Inr (False, [], ustr_of ''DEEPGRAM_API_KEY missing'', 0), w)
      else (case seg_file w of
              None \<Rightarrow> (Inl (Exception (ustr_of ''FileNotFoundError'')), w)
            | Some window \<Rightarrow>
                (case send_post (DeepgramPost window model
                                   (if language = ''auto'' then DetectLanguage
                                    else Language language)) w of
                   (RequestFailed m, w') \<Rightarrow> (Inl (Exception m), w')
                 | (Reply status body tr, w') \<Rightarrow>
                     if status \<noteq> 200
                     then (Inr (False, [],
                                ustr_of ''DG_ERR_'' @ ustr_of (fmt_d 0 status) @ ustr_of '': ''
                                @ replace_newlines (take 180 body), status), w')
                     else (case tr of
                             None \<Rightarrow> (Inr (False, [], ustr_of ''DG_JSON_PARSE_ERR'', status), w')
                           | Some t \<Rightarrow>
                               if strip t = []
                               then (Inr (False, [], ustr_of ''EMPTY_TRANSCRIPT'', status), w')
                               else (Inr (True, strip t, [], status), w')))))"

text \<open>
  \<open>transcribe_with_hf\<close> is the same for the other provider: no language, the key
  \<open>HF_TOKEN\<close>, the errors \<open>HF_ERR_<status>\<close>, \<open>HF_EMPTY_TRANSCRIPT\<close> and \<open>HF_JSON_PARSE_ERR\<close>.
\<close>

definition transcribe_with_hf ::
  "environ \<Rightarrow> world \<Rightarrow> (exn + bool \<times> ustr \<times> ustr \<times> int) \<times> world" where
  "transcribe_with_hf env w =
     (if env_HF_TOKEN env = []
      then (Inr (False, [], ustr_of ''HF_TOKEN missing'', 0), w)
      else (case seg_file w of
              None \<Rightarrow> (Inl (Exception (ustr_of ''FileNotFoundError'')), w)
            | Some window \<Rightarrow>
                (case send_post (HfPost window) w of
                   (RequestFailed m, w') \<Rightarrow> (Inl (Exception m), w')
                 | (Reply status body tr, w') \<Rightarrow>
                     if status \<noteq> 200
                     then (Inr (False, [],
                                ustr_of ''HF_ERR_'' @ ustr_of (fmt_d 0 status) @ ustr_of '': ''
                                @ replace_newlines (take 180 body), status), w')
                     else (case tr of
                             None \<Rightarrow> (Inr (False, [], ustr_of ''HF_JSON_PARSE_ERR'', status), w')
                           | Some t \<Rightarrow>
                               if strip t = []
                               then (Inr (False, [], ustr_of ''HF_EMPTY_TRANSCRIPT'', status), w')
                               else (Inr (True, strip t, [], status), w')))))"

text \<open>
  \<^verbatim>\<open>
  def _empty_retry_window(seg):
      pad = 0.22 if seg.dur < 1.2 else (0.35 if seg.dur < 3.0 else 0.50)
      retry_start = max(0.0, seg.start - pad)
      retry_end = max(retry_start + 0.02, seg.end + pad)
      return retry_start, retry_end
  \<close>
\<close>

definition retry_pad :: "rounding \<Rightarrow> SpeechSeg \<Rightarrow> real" where
  "retry_pad rnd seg =
     (if dur rnd seg < rnd 1.2 then rnd 0.22 else if dur rnd seg < 3.0 then rnd 0.35 else 0.50)"

definition empty_retry_window :: "rounding \<Rightarrow> SpeechSeg \<Rightarrow> real \<times> real" where
  "empty_retry_window rnd seg =
     (let pad = retry_pad rnd seg;
          retry_start = max 0 (fsub rnd (seg_start seg) pad);
          retry_end = max (fadd rnd retry_start (rnd 0.02)) (fadd rnd (seg_end seg) pad)
      in (retry_start, retry_end))"

text \<open>
  \<^verbatim>\<open>
  def transcribe_task(job_id, idx, seg, full_wav, model, language, options):
      ...
      if is_cancel_requested(job_id):
          return SegmentResult(False, idx, seg.start, seg.end, "", "CANCELLED")
      if seg.dur < 0.01:
          return SegmentResult(False, idx, seg.start, seg.end, "", "INVALID_SEGMENT_DURATION")
      try:
          extract_segment_wav(full_wav, seg_file, seg.start, seg.end)
          if "kotoba" in model:
              ok, txt, err, code = transcribe_with_hf(seg_file)
          else:
              ok, txt, err, code = transcribe_with_deepgram(seg_file, model, language, options)
              if (not ok) and err == "EMPTY_TRANSCRIPT":
                  retry_start, retry_end = _empty_retry_window(seg)
                  extract_segment_wav(full_wav, seg_file, retry_start, retry_end)
                  retry_lang = "auto" if language != "auto" else language
                  ok, txt, err, code = transcribe_with_deepgram(seg_file, model, retry_lang, options)
          if ok:
              txt = normalize_transcript_text(txt, language, model=model)
              if not txt:
                  return SegmentResult(False, idx, seg.start, seg.end, "",
                                       "EMPTY_AFTER_NORMALIZE", code)
              return SegmentResult(True, idx, seg.start, seg.end, txt, None, code)
          return SegmentResult(False, idx, seg.start, seg.end, "", err or "TRANSCRIBE_FAIL", code)
      except subprocess.CalledProcessError as e:
          msg = (e.stderr or e.stdout or str(e))
          msg = re.sub(r"\s+", " ", msg)[:180]
          return SegmentResult(False, idx, seg.start, seg.end, "", f"FFMPEG_ERR: {msg}")
      except Exception as e:
          return SegmentResult(False, idx, seg.start, seg.end, "", f"EXC: {str(e)[:180]}")
      finally:
          safe_unlink(seg_file)
  \<close>
  \<open>call_provider\<close> is the \<open>if "kotoba" in model\<close> statement, \<open>try_transcribe\<close> the body of the
  \<open>try\<close>; \<open>cancel_requested\<close> is what \<open>is_cancel_requested(job_id)\<close> returns.
\<close>

definition failed :: "int \<Rightarrow> SpeechSeg \<Rightarrow> ustr \<Rightarrow> int \<Rightarrow> SegmentResult" where
  "failed idx seg err code =
     \<lparr>r_ok = False, r_idx = idx, r_start = seg_start seg, r_end = seg_end seg, r_text = [],
      r_error = Some err, r_code = code\<rparr>"

definition call_provider ::
  "rounding \<Rightarrow> externals \<Rightarrow> environ \<Rightarrow> SpeechSeg \<Rightarrow> string \<Rightarrow> string \<Rightarrow> world
   \<Rightarrow> (exn + bool \<times> ustr \<times> ustr \<times> int) \<times> world" where
  "call_provider rnd ext env seg model language w =
     (if contains ''kotoba'' model then transcribe_with_hf env w
      else (case transcribe_with_deepgram env model language w of
              (Inl e, w1) \<Rightarrow> (Inl e, w1)
            | (Inr (ok, t, err, code), w1) \<Rightarrow>
                if \<not> ok \<and> err = ustr_of ''EMPTY_TRANSCRIPT''
                then (case empty_retry_window rnd seg of
                        (retry_start, retry_end) \<Rightarrow>
                          (case extract_segment_wav rnd ext retry_start retry_end w1 of
                             (Inl e, w2) \<Rightarrow> (Inl e, w2)
                           | (Inr u, w2) \<Rightarrow>
                               transcribe_with_deepgram env model
                                 (if language \<noteq> ''auto'' then ''auto'' else language) w2))
                else (Inr (ok, t, err, code), w1)))"

definition try_transcribe ::
  "rounding \<Rightarrow> externals \<Rightarrow> environ \<Rightarrow> int \<Rightarrow> SpeechSeg \<Rightarrow> string \<Rightarrow> string \<Rightarrow> world
   \<Rightarrow> (exn + SegmentResult) \<times> world" where
  "try_transcribe rnd ext env idx seg model language w =
     (case extract_segment_wav rnd ext (seg_start seg) (seg_end seg) w of
        (Inl e, w1) \<Rightarrow> (Inl e, w1)
      | (Inr u, w1) \<Rightarrow>
          (case call_provider rnd ext env seg model language w1 of
             (Inl e, w2) \<Rightarrow> (Inl e, w2)
           | (Inr (ok, t, err, code), w2) \<Rightarrow>
               if ok
               then (let t' = normalize_transcript_text (html_unescape ext) t language model in
                     if t' = []
                     then (Inr (failed idx seg (ustr_of ''EMPTY_AFTER_NORMALIZE'') code), w2)
                     else (Inr \<lparr>r_ok = True, r_idx = idx, r_start = seg_start seg,
                                r_end = seg_end seg, r_text = t', r_error = None,
                                r_code = code\<rparr>, w2))
               else (Inr (failed idx seg
                            (if err \<noteq> [] then err else ustr_of ''TRANSCRIBE_FAIL'') code), w2)))"

definition transcribe_task ::
  "rounding \<Rightarrow> externals \<Rightarrow> environ \<Rightarrow> bool \<Rightarrow> int \<Rightarrow> SpeechSeg \<Rightarrow> string \<Rightarrow> string \<Rightarrow> world
   \<Rightarrow> SegmentResult \<times> world" where
  "transcribe_task rnd ext env cancel_requested idx seg model language w =
     (if cancel_requested then (failed idx seg (ustr_of ''CANCELLED'') 0, w)
      else if dur rnd seg < rnd 0.01
      then (failed idx seg (ustr_of ''INVALID_SEGMENT_DURATION'') 0, w)
      else (case try_transcribe rnd ext env idx seg model language w of
              (Inr r, w') \<Rightarrow> (r, w'\<lparr>seg_file := None\<rparr>)
            | (Inl (CalledProcessError m), w') \<Rightarrow>
                (failed idx seg
                   (ustr_of ''FFMPEG_ERR: '' @ take 180 (sub_runs is_space 1 [] m)) 0,
                 w'\<lparr>seg_file := None\<rparr>)
            | (Inl (Exception m), w') \<Rightarrow>
                (failed idx seg (ustr_of ''EXC: '' @ take 180 m) 0, w'\<lparr>seg_file := None\<rparr>)))"

section \<open>Verified properties\<close>

subsection \<open>Timestamps\<close>

lemma py_round_nonneg: "0 \<le> x \<Longrightarrow> 0 \<le> py_round x"
  by (auto simp: py_round_def Let_def)





















subsection \<open>Per-line time allocation\<close>

lemma slice_lines_text:
  "map cue_text (slice_lines rnd e d total_w t wl) = map snd wl"
  by (induction rnd e d total_w t wl rule: slice_lines.induct)
     (simp_all add: cue_text_def Let_def)

lemma fix_overlap_text: "map cue_text (fix_overlap rnd p cs) = map cue_text cs"
  by (induction rnd p cs rule: fix_overlap.induct) (simp_all add: cue_text_def Let_def)

lemma fix_overlap_length: "length (fix_overlap rnd p cs) = length cs"
  by (induction rnd p cs rule: fix_overlap.induct) (simp_all add: Let_def)

lemma slice_lines_length: "length (slice_lines rnd e d total_w t wl) = length wl"
  using arg_cong[OF slice_lines_text, of length rnd e d total_w t wl] by simp

lemma stick_last_Cons:
  "cs \<noteq> [] \<Longrightarrow> stick_last rnd e (c # cs) = c # stick_last rnd e cs"
  by (simp add: stick_last_def split: prod.splits)

lemma allocate_fused:
  "wl \<noteq> [] \<Longrightarrow> t \<le> p \<Longrightarrow>
   stick_last rnd e (fix_overlap rnd p (slice_lines rnd e d total_w t wl))
   = weighted_cues rnd e d total_w t p wl"
proof (induction rnd e d total_w t wl arbitrary: p rule: slice_lines.induct)
  case (1 rnd seg_end dur total_w t)
  then show ?case by simp
next
  case (2 rnd seg_end dur total_w t w line)
  then show ?case by (simp add: stick_last_def Let_def max_def)
next
  case (3 rnd seg_end dur total_w t w line v va)
  define nxt where
    "nxt = min seg_end (fadd rnd t (max (rnd 0.3) (fmul rnd dur (fdiv rnd (real w) (real total_w)))))"
  define en where "en = max nxt (fadd rnd p (rnd 0.18))"
  have le: "nxt \<le> en" by (simp add: en_def)
  have sl: "slice_lines rnd seg_end dur total_w t ((w, line) # v # va)
            = (t, nxt, line) # slice_lines rnd seg_end dur total_w nxt (v # va)"
    by (simp add: Let_def nxt_def)
  have mp: "max t p = p" using 3(3) by simp
  have fx: "fix_overlap rnd p ((t, nxt, line) # slice_lines rnd seg_end dur total_w nxt (v # va))
            = (p, en, line) # fix_overlap rnd en (slice_lines rnd seg_end dur total_w nxt (v # va))"
    by (simp add: Let_def mp en_def)
  have ne: "fix_overlap rnd en (slice_lines rnd seg_end dur total_w nxt (v # va)) \<noteq> []"
    using fix_overlap_length[of rnd en "slice_lines rnd seg_end dur total_w nxt (v # va)"]
      slice_lines_length[of rnd seg_end dur total_w nxt "v # va"] by auto
  have ih: "stick_last rnd seg_end (fix_overlap rnd en (slice_lines rnd seg_end dur total_w nxt (v # va)))
            = weighted_cues rnd seg_end dur total_w nxt en (v # va)"
    using 3(1) le unfolding nxt_def by simp
  have w: "weighted_cues rnd seg_end dur total_w t p ((w, line) # v # va)
           = (p, en, line) # weighted_cues rnd seg_end dur total_w nxt en (v # va)"
    by (simp add: Let_def nxt_def en_def)
  show ?case unfolding sl fx stick_last_Cons[OF ne] ih w ..
qed

lemma weighted_cues_text:
  "map cue_text (weighted_cues rnd e d total_w t p wl) = map snd wl"
  by (induction rnd e d total_w t p wl rule: weighted_cues.induct)
     (simp_all add: cue_text_def Let_def)

lemma weighted_cues_min:
  "\<forall>c \<in> set (weighted_cues rnd e d total_w t p wl).
     fadd rnd (cue_start c) (rnd 0.18) \<le> cue_end c"
  by (induction rnd e d total_w t p wl rule: weighted_cues.induct)
     (simp_all add: cue_start_def cue_end_def Let_def)

lemma weighted_cues_hd:
  "wl \<noteq> [] \<Longrightarrow> cue_start (hd (weighted_cues rnd e d total_w t p wl)) = p"
  by (induction rnd e d total_w t p wl rule: weighted_cues.induct)
     (simp_all add: cue_start_def Let_def)

lemma weighted_cues_last:
  "wl \<noteq> [] \<Longrightarrow>
   cue_end (last (weighted_cues rnd e d total_w t p wl))
   = max e (fadd rnd (cue_start (last (weighted_cues rnd e d total_w t p wl))) (rnd 0.18))"
proof (induction rnd e d total_w t p wl rule: weighted_cues.induct)
  case (3 rnd seg_end dur total_w t start w line v va)
  have "weighted_cues rnd seg_end dur total_w t' e' (v # va) \<noteq> []" for t' e'
    using arg_cong[OF weighted_cues_text, of length rnd seg_end dur total_w t' e' "v # va"] by auto
  with 3 show ?case by (simp add: Let_def)
qed (simp_all add: cue_start_def cue_end_def)

lemma weighted_cues_chain:
  "Suc i < length (weighted_cues rnd e d total_w t p wl) \<Longrightarrow>
   cue_start (weighted_cues rnd e d total_w t p wl ! Suc i)
   = cue_end (weighted_cues rnd e d total_w t p wl ! i)"
proof (induction rnd e d total_w t p wl arbitrary: i rule: weighted_cues.induct)
  case (3 rnd seg_end dur total_w t start w line v va)
  define t' where
    "t' = min seg_end (fadd rnd t (max (rnd 0.3) (fmul rnd dur (fdiv rnd (real w) (real total_w)))))"
  define en where "en = max t' (fadd rnd start (rnd 0.18))"
  let ?rest = "weighted_cues rnd seg_end dur total_w t' en (v # va)"
  have w: "weighted_cues rnd seg_end dur total_w t start ((w, line) # v # va)
           = (start, en, line) # ?rest"
    by (simp add: Let_def t'_def en_def)
  have ne: "?rest \<noteq> []"
    using arg_cong[OF weighted_cues_text, of length rnd seg_end dur total_w t' en "v # va"] by auto
  show ?case
  proof (cases i)
    case 0
    have "cue_start (hd ?rest) = en" by (rule weighted_cues_hd) simp
    with ne 0 show ?thesis unfolding w by (simp add: hd_conv_nth cue_end_def)
  next
    case (Suc j)
    with 3(2) have "Suc j < length ?rest" unfolding w by simp
    then have "cue_start (?rest ! Suc j) = cue_end (?rest ! j)"
      using 3(1) unfolding t'_def en_def by simp
    with Suc show ?thesis unfolding w by simp
  qed
qed simp_all

lemma allocate_multi:
  assumes "2 \<le> length lines"
  shows "allocate_line_times rnd s e lines =
         weighted_cues rnd e (max (rnd 0.2) (fsub rnd e s))
           (sum_list (map (\<lambda>x. max 1 (length x)) lines)) s s
           (zip (map (\<lambda>x. max 1 (length x)) lines) lines)"
proof -
  from assms have ne: "zip (map (\<lambda>x. max 1 (length x)) lines) lines \<noteq> []"
    by (cases lines) auto
  have "allocate_line_times rnd s e lines =
         stick_last rnd e (fix_overlap rnd s
           (slice_lines rnd e (max (rnd 0.2) (fsub rnd e s))
              (sum_list (map (\<lambda>x. max 1 (length x)) lines)) s
              (zip (map (\<lambda>x. max 1 (length x)) lines) lines)))"
    using assms by (auto simp: allocate_line_times_def Let_def)
  then show ?thesis by (simp only: allocate_fused[OF ne order_refl])
qed

lemma allocate_single:
  "length lines = 1 \<Longrightarrow>
   allocate_line_times rnd s e lines = [(s, e, hd lines)]"
  by (cases lines) (auto simp: allocate_line_times_def Let_def)

lemma allocate_text: "map cue_text (allocate_line_times rnd s e lines) = lines"
proof -
  consider "lines = []" | "length lines = 1" | "2 \<le> length lines"
    by (cases lines; cases "tl lines") auto
  then show ?thesis
  proof cases
    case 1
    then show ?thesis by (simp add: allocate_line_times_def)
  next
    case 2
    then show ?thesis by (cases lines) (auto simp: allocate_single cue_text_def)
  next
    case 3
    then show ?thesis by (simp add: allocate_multi weighted_cues_text)
  qed
qed

text \<open>
  Claim C7, amended. For a segment \<open>[s, e]\<close> and a non-empty list of lines,
  \<open>allocate_line_times\<close> returns one cue per line, in order. A single line gets exactly
  \<open>[s, e]\<close>, whatever its length. With two lines or more the result is the weighted
  allocation \<open>weighted_cues\<close>, with the duration \<open>max(0.2, e - s)\<close> and the weight
  \<open>max(1, len(line))\<close> of a line: the first cue starts at \<open>s\<close>, every other cue starts where
  the cue before it ends, every cue ends no earlier than the floating-point sum of its
  start and 0.18 (which can be a rounding error less than 0.18 seconds after the start),
  and the last cue ends at \<open>e\<close>, or at that sum if it is later than \<open>e\<close>.
\<close>

theorem allocate_line_times_spec:
  "lines \<noteq> [] \<Longrightarrow>
   (let out = allocate_line_times rnd s e lines;
        weights = map (\<lambda>x. max 1 (length x)) lines
    in
      map cue_text out = lines \<and>
      (length lines = 1 \<longrightarrow> out = [(s, e, hd lines)]) \<and>
      (2 \<le> length lines \<longrightarrow>
         out = weighted_cues rnd e (max (rnd 0.2) (fsub rnd e s)) (sum_list weights) s s
                 (zip weights lines) \<and>
         cue_start (hd out) = s \<and>
         (\<forall>i. Suc i < length out \<longrightarrow> cue_start (out ! Suc i) = cue_end (out ! i)) \<and>
         (\<forall>c \<in> set out. fadd rnd (cue_start c) (rnd 0.18) \<le> cue_end c) \<and>
         cue_end (last out) = max e (fadd rnd (cue_start (last out)) (rnd 0.18))))"
proof -
  assume ne: "lines \<noteq> []"
  let ?ws = "map (\<lambda>x. max 1 (length x)) lines"
  let ?w = "weighted_cues rnd e (max (rnd 0.2) (fsub rnd e s)) (sum_list ?ws) s s (zip ?ws lines)"
  have z: "zip ?ws lines \<noteq> []" using ne by (cases lines) auto
  have 1: "map cue_text (allocate_line_times rnd s e lines) = lines" by (rule allocate_text)
  have 2: "length lines = 1 \<longrightarrow> allocate_line_times rnd s e lines = [(s, e, hd lines)]"
    by (simp add: allocate_single)
  have 3: "cue_start (hd ?w) = s" by (rule weighted_cues_hd[OF z])
  have 4: "\<forall>i. Suc i < length ?w \<longrightarrow> cue_start (?w ! Suc i) = cue_end (?w ! i)"
    using weighted_cues_chain by blast
  have 5: "\<forall>c \<in> set ?w. fadd rnd (cue_start c) (rnd 0.18) \<le> cue_end c"
    by (rule weighted_cues_min)
  have 6: "cue_end (last ?w) = max e (fadd rnd (cue_start (last ?w)) (rnd 0.18))"
    by (rule weighted_cues_last[OF z])
  show ?thesis
  proof (cases "2 \<le> length lines")
    case True
    from allocate_multi[OF True, of rnd s e] 1 2 3 4 5 6 show ?thesis
      unfolding Let_def by simp
  next
    case False
    with 1 2 show ?thesis unfolding Let_def by simp
  qed
qed

text \<open>
  The theorem at three lines of 1, 3 and 1 characters on the segment \<open>[0, 10]\<close>, where the
  floating-point operations of the code are exact or round to the exact shares 2 and 6:
  the cues are \<open>[0, 2]\<close>, \<open>[2, 8]\<close> and \<open>[8, 10]\<close>.
\<close>

theorem allocate_line_times_witness:
  "[[97], [98, 99, 100], [101]] \<noteq> ([] :: ustr list) \<and>
   allocate_line_times exact 0 10 [[97], [98, 99, 100], [101]]
     = [(0, 2, [97]), (2, 8, [98, 99, 100]), (8, 10, [101])]"
proof -
  let ?L = "[[97], [98, 99, 100], [101]] :: ustr list"
  have ne: "?L \<noteq> []" and l2: "2 \<le> length ?L" by simp_all
  from allocate_line_times_spec [of ?L exact 0 10, unfolded Let_def, OF ne] l2
  have "allocate_line_times exact 0 10 ?L
        = weighted_cues exact 10 (max (exact 0.2) (fsub exact 10 0))
            (sum_list (map (\<lambda>x. max 1 (length x)) ?L)) 0 0
            (zip (map (\<lambda>x. max 1 (length x)) ?L) ?L)"
    by blast
  also have "\<dots> = [(0, 2, [97]), (2, 8, [98, 99, 100]), (8, 10, [101])]"
    by (simp add: Let_def exact_def fadd_def fsub_def fmul_def fdiv_def)
  finally show ?thesis by simp
qed

text \<open>
  Claim C7 as stated fails on both counts. With two lines on the segment \<open>[0, 0.2]\<close> the
  last cue is \<open>(0.2, 0.38)\<close>: it ends after the segment. With one line on \<open>[0, 0.1]\<close> the
  cue is \<open>(0, 0.1)\<close>: it lasts less than 0.18 seconds.
\<close>

theorem allocate_line_times_counterexample:
  "allocate_line_times exact 0 (1 / 5) [[97], [98]] = [(0, 1 / 5, [97]), (1 / 5, 19 / 50, [98])]
   \<and> allocate_line_times exact 0 (1 / 10) [[97]] = [(0, 1 / 10, [97])]
   \<and> \<not> (cue_end (last (allocate_line_times exact 0 (1 / 5) [[97], [98]])) = 1 / 5)
   \<and> \<not> (\<forall>c \<in> set (allocate_line_times exact 0 (1 / 10) [[97]]). cue_start c + 0.18 \<le> cue_end c)"
proof -
  have a: "allocate_line_times exact 0 (1 / 5) [[97], [98]] = [(0, 1 / 5, [97]), (1 / 5, 19 / 50, [98])]"
    by (simp add: allocate_line_times_def stick_last_def Let_def exact_def fadd_def fsub_def
                  fmul_def fdiv_def)
  have b: "allocate_line_times exact 0 (1 / 10) [[97]] = [(0, 1 / 10, [97])]"
    by (simp add: allocate_line_times_def)
  show ?thesis unfolding a b by (simp add: cue_start_def cue_end_def)
qed

subsection \<open>Line splitting\<close>

lemma strip_length: "length (strip s) \<le> length s"
proof -
  have "length (dropWhile is_space (rev (dropWhile is_space s)))
        \<le> length (rev (dropWhile is_space s))"
    by (rule length_dropWhile_le)
  then have "length (strip s) \<le> length (dropWhile is_space s)"
    by (simp add: strip_def)
  also have "\<dots> \<le> length s" by (rule length_dropWhile_le)
  finally show ?thesis .
qed

lemma strip_no_space:
  assumes "\<forall>c \<in> set s. \<not> is_space c"
  shows "strip s = s"
proof -
  have a: "dropWhile is_space s = s" using assms by (cases s) auto
  have "dropWhile is_space (rev s) = rev s" using assms by (cases "rev s") auto
  with a show ?thesis by (simp add: strip_def)
qed

lemma re_split_no_space:
  "\<forall>c \<in> set cs. \<not> is_space c \<Longrightarrow>
   re_split_ws_after S prev skipping cur cs = [cur @ cs]"
  by (induction cs arbitrary: prev skipping cur) simp_all

lemma srt_budget_range:
  "10 \<le> srt_budget language max_chars model \<and> srt_budget language max_chars model \<le> 100"
  by (simp add: srt_budget_def Let_def)

lemma hard_cut_bound: "\<forall>p \<in> set (hard_cut b s). length p \<le> b"
proof (induction b s rule: hard_cut.induct)
  case (1 budget s)
  show ?case
  proof (cases "s = [] \<or> budget = 0")
    case True
    then show ?thesis by (subst hard_cut.simps) simp
  next
    case False
    with 1 show ?thesis by (subst hard_cut.simps) simp
  qed
qed

lemma flush_bound:
  assumes "\<forall>l \<in> set lines. int (length l) \<le> K" and "int (length cur) \<le> K"
  shows "\<forall>l \<in> set (flush lines cur). int (length l) \<le> K"
proof -
  have "int (length (strip cur)) \<le> K" using strip_length[of cur] assms(2) by linarith
  with assms(1) show ?thesis by (auto simp: flush_def Let_def)
qed

lemma pack_sentences_bound:
  assumes "0 \<le> b" and "b \<le> K" and "\<lfloor>real_of_int b * 1.8\<rfloor> \<le> K"
    and "\<forall>l \<in> set lines. int (length l) \<le> K" and "int (length cur) \<le> K"
    and "pack_sentences b lines cur ss = (lines', cur')"
  shows "(\<forall>l \<in> set lines'. int (length l) \<le> K) \<and> int (length cur') \<le> K"
  using assms(4-)
proof (induction ss arbitrary: lines cur)
  case Nil
  then show ?case by simp
next
  case (Cons s0 ss)
  let ?s = "strip s0"
  show ?case
  proof (cases "?s = []")
    case True
    with Cons.prems(3) have "pack_sentences b lines cur ss = (lines', cur')"
      by (simp add: Let_def)
    from Cons.IH[OF Cons.prems(1,2) this] show ?thesis .
  next
    case ne: False
    show ?thesis
    proof (cases "real_of_int b * 1.8 < real (length ?s)")
      case True
      with ne Cons.prems(3)
      have p: "pack_sentences b (flush lines cur @ hard_cut (nat b) ?s) [] ss = (lines', cur')"
        by (simp add: Let_def)
      have "\<forall>l \<in> set (hard_cut (nat b) ?s). int (length l) \<le> K"
        using hard_cut_bound[of "nat b" ?s] assms(1,2) by fastforce
      with flush_bound[OF Cons.prems(1,2)]
      have "\<forall>l \<in> set (flush lines cur @ hard_cut (nat b) ?s). int (length l) \<le> K" by auto
      moreover have "int (length ([]::nat list)) \<le> K" using assms(1,2) by simp
      ultimately show ?thesis using Cons.IH[OF _ _ p] by blast
    next
      case short: False
      then have "real (length ?s) \<le> real_of_int b * 1.8" by simp
      then have "int (length ?s) \<le> \<lfloor>real_of_int b * 1.8\<rfloor>" by (simp add: le_floor_iff)
      with assms(3) have sK: "int (length ?s) \<le> K" by linarith
      show ?thesis
      proof (cases "cur = []")
        case True
        with ne short Cons.prems(3) have "pack_sentences b lines ?s ss = (lines', cur')"
          by (simp add: Let_def)
        from Cons.IH[OF Cons.prems(1) sK this] show ?thesis .
      next
        case curne: False
        let ?cand = "if ends_alnum cur then cur @ [32] @ ?s else cur @ ?s"
        show ?thesis
        proof (cases "int (length ?cand) \<le> b")
          case True
          with ne short curne Cons.prems(3)
          have p: "pack_sentences b lines ?cand ss = (lines', cur')"
            by (simp add: Let_def)
          from True assms(2) have "int (length ?cand) \<le> K" by linarith
          from Cons.IH[OF Cons.prems(1) this p] show ?thesis .
        next
          case False
          with ne short curne Cons.prems(3)
          have p: "pack_sentences b (flush lines cur) ?s ss = (lines', cur')"
            by (simp add: Let_def)
          from Cons.IH[OF flush_bound[OF Cons.prems(1,2)] sK p] show ?thesis .
        qed
      qed
    qed
  qed
qed

lemma merge_short_lines_bound:
  assumes "b + 6 \<le> M"
    and "\<forall>l \<in> set merged. int (length l) \<le> M" and "\<forall>l \<in> set ls. int (length l) \<le> M"
  shows "\<forall>l \<in> set (merge_short_lines b merged ls). int (length l) \<le> M"
  using assms(2,3)
proof (induction ls arbitrary: merged)
  case Nil
  then show ?case by simp
next
  case (Cons line ls)
  from Cons.prems(2) have lineM: "int (length line) \<le> M" and lsM: "\<forall>l \<in> set ls. int (length l) \<le> M"
    by simp_all
  show ?case
  proof (cases "merged = []")
    case True
    have "\<forall>l \<in> set [line]. int (length l) \<le> M" using lineM by simp
    from Cons.IH[OF this lsM] True show ?thesis by simp
  next
    case ne: False
    let ?c = "int (length line) < max 4 (b div 5)
              \<and> int (length (last merged)) + int (length line) + 1 \<le> b + 6"
    show ?thesis
    proof (cases ?c)
      case True
      let ?new = "last merged @ (if ends_alnum (last merged) then [32] else []) @ line"
      have "int (length ?new) \<le> int (length (last merged)) + int (length line) + 1" by simp
      with True assms(1) have newM: "int (length ?new) \<le> M" by linarith
      have "\<forall>l \<in> set (butlast merged). int (length l) \<le> M"
        using Cons.prems(1) by (auto dest: in_set_butlastD)
      with newM have "\<forall>l \<in> set (butlast merged @ [?new]). int (length l) \<le> M" by auto
      from Cons.IH[OF this lsM] ne True show ?thesis by simp
    next
      case False
      have "\<forall>l \<in> set (merged @ [line]). int (length l) \<le> M"
        using Cons.prems(1) lineM by auto
      from Cons.IH[OF this lsM] ne False show ?thesis by auto
    qed
  qed
qed

lemma split_text_for_srt_lines_bound:
  "\<forall>line \<in> set (split_text_for_srt text language max_chars model).
     int (length line) \<le> max (srt_budget language max_chars model + 6)
                             \<lfloor>real_of_int (srt_budget language max_chars model) * 1.8\<rfloor>"
proof (cases "text = []")
  case True
  then show ?thesis by (simp add: split_text_for_srt_def)
next
  case False
  define b where "b = srt_budget language max_chars model"
  define K where "K = \<lfloor>real_of_int b * 1.8\<rfloor>"
  define M where "M = max (b + 6) K"
  have b: "10 \<le> b" "b \<le> 100" using srt_budget_range[of language max_chars model]
    by (simp_all add: b_def)
  have bK: "b \<le> K" unfolding K_def using b by (simp add: le_floor_iff)
  obtain lines cur where p: "pack_sentences b [] [] (split_by_punctuation text language) = (lines, cur)"
    by (cases "pack_sentences b [] [] (split_by_punctuation text language)") auto
  have "(\<forall>l \<in> set lines. int (length l) \<le> K) \<and> int (length cur) \<le> K"
    using b bK by (intro pack_sentences_bound[OF _ bK _ _ _ p]) (simp_all add: K_def)
  then have "\<forall>l \<in> set (flush lines cur). int (length l) \<le> K"
    by (intro flush_bound) simp_all
  then have fl: "\<forall>l \<in> set (flush lines cur). int (length l) \<le> M"
    unfolding M_def by fastforce
  have "\<forall>l \<in> set (merge_short_lines b [] (flush lines cur)). int (length l) \<le> M"
    by (rule merge_short_lines_bound[OF _ _ fl]) (simp_all add: M_def)
  moreover have "split_text_for_srt text language max_chars model
                 = merge_short_lines b [] (flush lines cur)"
    using False p by (simp add: split_text_for_srt_def Let_def b_def)
  ultimately show ?thesis by (simp add: M_def K_def b_def)
qed



lemma re_split_one_gap:
  assumes "\<forall>x \<in> set xs. \<not> is_space x" and "\<not> is_space c" and "is_space w"
    and "\<forall>y \<in> set ys. \<not> is_space y"
  shows "re_split_ws_after S prev False cur (xs @ c # w # ys)
         = (if S c then [cur @ xs @ [c], ys] else [cur @ xs @ c # w # ys])"
  using assms(1)
proof (induction xs arbitrary: prev cur)
  case Nil
  show ?case
  proof (cases ys)
    case Nil
    with assms(2,3) show ?thesis by simp
  next
    case (Cons y ys')
    with assms(4) have y: "\<not> is_space y" and ys': "\<forall>y \<in> set ys'. \<not> is_space y" by simp_all
    from re_split_no_space[OF ys'] assms(2,3) y Cons show ?thesis by simp
  qed
next
  case (Cons x xs)
  then show ?case by simp
qed

lemma split_text_for_srt_sentence:
  assumes "text \<noteq> []" and s: "strip text = text"
    and one: "split_by_punctuation text language = [text]"
    and le: "real (length text) \<le> real_of_int (srt_budget language max_chars model) * 1.8"
  shows "split_text_for_srt text language max_chars model = [text]"
proof -
  have "pack_sentences (srt_budget language max_chars model) [] [] [text] = ([], text)"
    using assms(1) le by (simp add: Let_def s)
  then show ?thesis
    using assms(1) by (simp add: split_text_for_srt_def Let_def one flush_def s)
qed

lemma two_words_sentence:
  "split_by_punctuation (replicate 7 97 @ [32] @ replicate 7 98) ''ja''
   = [replicate 7 97 @ [32] @ replicate 7 98]"
proof -
  let ?t = "replicate 7 (97::nat) @ [32] @ replicate 7 98"
  have t: "?t = replicate 6 97 @ 97 # 32 # replicate 7 98"
    by (simp add: numeral_eq_Suc replicate_app_Cons_same)
  have r: "re_split_ws_after sentence_final None False [] ?t = [?t]"
    unfolding t
    by (subst re_split_one_gap) (simp_all add: is_space_def sentence_final_def)
  have s: "strip ?t = ?t"
    by (simp add: strip_def is_space_def numeral_eq_Suc)
  show ?thesis
    unfolding split_by_punctuation_def Let_def r using s by simp
qed

lemma comma_sentence_parts:
  "split_by_punctuation (replicate 36 97 @ [44, 32] @ replicate 36 98) ''en''
   = [replicate 36 97 @ [44], replicate 36 98]"
proof -
  let ?t = "replicate 36 (97::nat) @ [44, 32] @ replicate 36 98"
  have t: "?t = replicate 36 97 @ 44 # 32 # replicate 36 98" by simp
  have r: "re_split_ws_after sentence_final None False [] ?t = [?t]"
    unfolding t
    by (subst re_split_one_gap) (simp_all add: is_space_def sentence_final_def)
  have c: "re_split_ws_after comma_semicolon None False [] ?t
           = [replicate 36 97 @ [44], replicate 36 98]"
    unfolding t
    by (subst re_split_one_gap) (simp_all add: is_space_def comma_semicolon_def)
  have "dropWhile is_space ?t = ?t" by (simp add: is_space_def numeral_eq_Suc)
  moreover have "dropWhile is_space (rev ?t) = rev ?t" by (simp add: is_space_def numeral_eq_Suc)
  ultimately have s: "strip ?t = ?t" unfolding strip_def by (simp only: rev_rev_ident)
  have sa: "strip (replicate 36 97 @ [44]) = replicate 36 97 @ [44]"
    by (rule strip_no_space) (simp add: is_space_def)
  have sb: "strip (replicate 36 98) = replicate 36 98"
    by (rule strip_no_space) (simp add: is_space_def)
  have ex: "list_ex comma_semicolon ?t" by (simp add: comma_semicolon_def)
  have len: "length ?t = 74" by simp
  have ne: "replicate 36 (97::nat) @ [44] \<noteq> []" "replicate 36 (98::nat) \<noteq> []" by simp_all
  show ?thesis
    unfolding split_by_punctuation_def Let_def r
    using s ex len c sa sb ne by simp
qed

text \<open>
  Claim C10, amended. With \<open>B\<close> the clamped character budget, every line that
  \<open>split_text_for_srt\<close> returns has at most \<open>max (B + 6) \<lfloor>B * 1.8\<rfloor>\<close> characters; and the
  budget is no hard cap: a text not longer than \<open>B * 1.8\<close> that is a single sentence for
  \<open>_split_by_punctuation\<close> (stripped, and returned by that function as its only piece) is
  returned as one line, uncut.
\<close>

theorem split_text_for_srt_bound:
  "(\<forall>line \<in> set (split_text_for_srt text language max_chars model).
      int (length line) \<le> max (srt_budget language max_chars model + 6)
                              \<lfloor>real_of_int (srt_budget language max_chars model) * 1.8\<rfloor>)
   \<and> (text \<noteq> [] \<and> strip text = text \<and> split_by_punctuation text language = [text]
        \<and> real (length text) \<le> real_of_int (srt_budget language max_chars model) * 1.8
        \<longrightarrow> split_text_for_srt text language max_chars model = [text])"
  using split_text_for_srt_lines_bound split_text_for_srt_sentence by blast

text \<open>
  The theorem at a sentence of two words, 15 characters long, with a budget of 10: the
  line is longer than the budget and within both bounds.
\<close>

theorem split_text_for_srt_bound_witness:
  "srt_budget ''ja'' (Some 10) '''' = 10
   \<and> split_text_for_srt (replicate 7 97 @ [32] @ replicate 7 98) ''ja'' (Some 10) ''''
     = [replicate 7 97 @ [32] @ replicate 7 98]
   \<and> length (replicate 7 (97::nat) @ [32] @ replicate 7 98) = 15"
proof -
  have b: "srt_budget ''ja'' (Some 10) '''' = 10" by (simp add: srt_budget_def)
  have s: "strip (replicate 7 97 @ [32] @ replicate 7 98) = replicate 7 97 @ [32] @ replicate 7 98"
    by (simp add: strip_def is_space_def numeral_eq_Suc)
  from split_text_for_srt_bound [of "replicate 7 97 @ [32] @ replicate 7 98" "''ja''" "Some 10" "''''"]
    b s two_words_sentence
  show ?thesis by simp
qed

text \<open>
  Claim C10 as stated fails in its second half. The English sentence of 36 letters, a
  comma, a blank and 36 letters has 74 characters, within \<open>B * 1.8 = 75.6\<close> for the budget
  \<open>B = 42\<close>; it has no sentence-final punctuation, but \<open>_split_by_punctuation\<close> splits an
  English piece longer than 72 characters after a comma, and the two pieces, 37 and 36
  characters long, do not fit one line of the budget: two lines are returned.
\<close>

theorem split_text_for_srt_counterexample:
  "srt_budget ''en'' None '''' = 42
   \<and> real (length (replicate 36 (97::nat) @ [44, 32] @ replicate 36 98))
       \<le> real_of_int (srt_budget ''en'' None '''') * 1.8
   \<and> split_text_for_srt (replicate 36 97 @ [44, 32] @ replicate 36 98) ''en'' None ''''
     = [replicate 36 97 @ [44], replicate 36 98]"
proof -
  have b: "srt_budget ''en'' None '''' = 42"
    by (simp add: srt_budget_def char_budget_def ascii_lower_def)
  have sa: "strip (replicate 36 97 @ [44]) = replicate 36 97 @ [44]"
    by (rule strip_no_space) (simp add: is_space_def)
  have sb: "strip (replicate 36 98) = replicate 36 98"
    by (rule strip_no_space) (simp add: is_space_def)
  have ea: "\<not> ends_alnum (replicate 36 97 @ [44])"
    by (simp add: ends_alnum_def is_alnum_ascii_def)
  have p: "pack_sentences 42 [] [] [replicate 36 97 @ [44], replicate 36 98]
           = ([replicate 36 97 @ [44]], replicate 36 98)"
    by (simp add: Let_def sa sb ea flush_def)
  have m: "merge_short_lines 42 [] [replicate 36 97 @ [44], replicate 36 98]
           = [replicate 36 97 @ [44], replicate 36 98]"
    by simp
  have "split_text_for_srt (replicate 36 97 @ [44, 32] @ replicate 36 98) ''en'' None ''''
        = [replicate 36 97 @ [44], replicate 36 98]"
    unfolding split_text_for_srt_def Let_def b comma_sentence_parts p
    by (simp add: flush_def sb m)
  with b show ?thesis by simp
qed

subsection \<open>Cue assembly\<close>












subsection \<open>Segmentation\<close>



















subsection \<open>The retry after an empty transcript\<close>

lemma extract_ok:
  assumes "rnd 0.01 \<le> max 0 (fsub rnd stop start)"
    and "ffmpeg_cut ext start (max 0 (fsub rnd stop start)) = None"
  shows "extract_segment_wav rnd ext start stop w
         = (Inr (), w\<lparr>cuts := cuts w @ [(start, stop)], seg_file := Some (start, stop)\<rparr>)"
proof -
  from assms(1) have "\<not> max 0 (fsub rnd stop start) < rnd 0.01" by linarith
  with assms(2) show ?thesis by (simp only: extract_segment_wav_def Let_def if_False) simp
qed

lemma extract_fails:
  assumes "\<not> (rnd 0.01 \<le> max 0 (fsub rnd stop start)
              \<and> ffmpeg_cut ext start (max 0 (fsub rnd stop start)) = None)"
  shows "\<exists>e. extract_segment_wav rnd ext start stop w = (Inl e, w)"
proof (cases "max 0 (fsub rnd stop start) < rnd 0.01")
  case True
  then show ?thesis by (simp only: extract_segment_wav_def Let_def if_True) blast
next
  case False
  with assms obtain e where "ffmpeg_cut ext start (max 0 (fsub rnd stop start)) = Some e"
    by (cases "ffmpeg_cut ext start (max 0 (fsub rnd stop start))") auto
  with False show ?thesis by (simp only: extract_segment_wav_def Let_def if_False) simp
qed

lemma deepgram_posts:
  assumes "env_DEEPGRAM_API_KEY env \<noteq> []" and "seg_file w = Some window"
  shows "posts (snd (transcribe_with_deepgram env model language w))
         = posts w @ [DeepgramPost window model
                        (if language = ''auto'' then DetectLanguage else Language language)]"
    and "cuts (snd (transcribe_with_deepgram env model language w)) = cuts w"
  using assms
  by (auto simp: transcribe_with_deepgram_def send_post_def
           split: list.splits http_reply.splits option.splits)

lemma deepgram_empty:
  assumes "env_DEEPGRAM_API_KEY env \<noteq> []" and "seg_file w = Some window"
    and "replies w = Reply 200 body (Some t) # rest" and "strip t = []"
  shows "transcribe_with_deepgram env model language w
         = (Inr (False, [], ustr_of ''EMPTY_TRANSCRIPT'', 200),
            w\<lparr>posts := posts w @ [DeepgramPost window model
                      (if language = ''auto'' then DetectLanguage else Language language)],
              replies := rest\<rparr>)"
  using assms by (simp add: transcribe_with_deepgram_def send_post_def)

lemma hf_posts:
  "\<exists>k \<le> 1. posts (snd (transcribe_with_hf env w))
           = posts w @ replicate k (HfPost (the (seg_file w)))"
proof (cases "env_HF_TOKEN env = [] \<or> seg_file w = None")
  case True
  then have "posts (snd (transcribe_with_hf env w)) = posts w @ replicate 0 (HfPost (the (seg_file w)))"
    by (auto simp: transcribe_with_hf_def)
  then show ?thesis by blast
next
  case False
  then have "posts (snd (transcribe_with_hf env w)) = posts w @ replicate 1 (HfPost (the (seg_file w)))"
    by (auto simp: transcribe_with_hf_def send_post_def
             split: list.splits http_reply.splits option.splits)
  then show ?thesis by blast
qed

lemma transcribe_task_posts:
  assumes "\<not> cancel_requested" and "rnd 0.01 \<le> dur rnd seg"
  shows "posts (snd (transcribe_task rnd ext env cancel_requested idx seg model language w))
         = posts (snd (try_transcribe rnd ext env idx seg model language w))"
    and "cuts (snd (transcribe_task rnd ext env cancel_requested idx seg model language w))
         = cuts (snd (try_transcribe rnd ext env idx seg model language w))"
  using assms
  by (simp_all add: transcribe_task_def split: prod.splits sum.splits exn.splits)

lemma try_transcribe_posts:
  "posts (snd (try_transcribe rnd ext env idx seg model language w))
   = (case extract_segment_wav rnd ext (seg_start seg) (seg_end seg) w of
        (Inl e, w1) \<Rightarrow> posts w1
      | (Inr u, w1) \<Rightarrow> posts (snd (call_provider rnd ext env seg model language w1)))"
  by (simp add: try_transcribe_def Let_def split: prod.splits sum.splits)

lemma try_transcribe_cuts:
  "cuts (snd (try_transcribe rnd ext env idx seg model language w))
   = (case extract_segment_wav rnd ext (seg_start seg) (seg_end seg) w of
        (Inl e, w1) \<Rightarrow> cuts w1
      | (Inr u, w1) \<Rightarrow> cuts (snd (call_provider rnd ext env seg model language w1)))"
  by (simp add: try_transcribe_def Let_def split: prod.splits sum.splits)

lemma extract_posts: "posts (snd (extract_segment_wav rnd ext start stop w)) = posts w"
  by (simp add: extract_segment_wav_def Let_def split: option.splits)

lemma extract_seg_file:
  "fst (extract_segment_wav rnd ext start stop w) = Inr u \<Longrightarrow>
   seg_file (snd (extract_segment_wav rnd ext start stop w)) = Some (start, stop)"
  by (auto simp: extract_segment_wav_def Let_def split: option.splits if_splits)

lemma first_request:
  assumes nc: "\<not> cancel_requested" and d: "rnd 0.01 \<le> dur rnd seg"
    and nk: "\<not> contains ''kotoba'' model" and key: "env_DEEPGRAM_API_KEY env \<noteq> []"
    and cut1: "ffmpeg_cut ext (seg_start seg) (dur rnd seg) = None"
    and rep: "replies w = Reply 200 body (Some t) # rest" and empty: "strip t = []"
    and win: "empty_retry_window rnd seg = (rs, re)"
  shows "snd (try_transcribe rnd ext env idx seg model language w)
         = snd (case extract_segment_wav rnd ext rs re
                  (w\<lparr>cuts := cuts w @ [(seg_start seg, seg_end seg)],
                     seg_file := Some (seg_start seg, seg_end seg),
                     posts := posts w @ [DeepgramPost (seg_start seg, seg_end seg) model
                        (if language = ''auto'' then DetectLanguage else Language language)],
                     replies := rest\<rparr>) of
                  (Inl e, w2) \<Rightarrow> (Inl e, w2)
                | (Inr u, w2) \<Rightarrow> transcribe_with_deepgram env model ''auto'' w2)"
proof -
  let ?lp = "if language = ''auto'' then DetectLanguage else Language language"
  define w1 where "w1 = w\<lparr>cuts := cuts w @ [(seg_start seg, seg_end seg)],
                          seg_file := Some (seg_start seg, seg_end seg)\<rparr>"
  define w2 where "w2 = w1\<lparr>posts := posts w1 @ [DeepgramPost (seg_start seg, seg_end seg) model ?lp],
                           replies := rest\<rparr>"
  have d': "rnd 0.01 \<le> max 0 (fsub rnd (seg_end seg) (seg_start seg))"
    using d by (simp only: dur_def)
  have cut1': "ffmpeg_cut ext (seg_start seg) (max 0 (fsub rnd (seg_end seg) (seg_start seg))) = None"
    using cut1 by (simp only: dur_def)
  have e1: "extract_segment_wav rnd ext (seg_start seg) (seg_end seg) w = (Inr (), w1)"
    unfolding w1_def by (rule extract_ok[OF d' cut1'])
  have t1: "transcribe_with_deepgram env model language w1
            = (Inr (False, [], ustr_of ''EMPTY_TRANSCRIPT'', 200), w2)"
    unfolding w2_def
    by (rule deepgram_empty[OF key _ _ empty, of _ _ body rest]) (simp_all add: w1_def rep)
  have cp: "call_provider rnd ext env seg model language w1
            = (case extract_segment_wav rnd ext rs re w2 of
                 (Inl e, w3) \<Rightarrow> (Inl e, w3)
               | (Inr u, w3) \<Rightarrow> transcribe_with_deepgram env model ''auto'' w3)"
    using nk by (simp add: call_provider_def t1 win split: prod.splits sum.splits)
  have w2: "w2 = w\<lparr>cuts := cuts w @ [(seg_start seg, seg_end seg)],
                     seg_file := Some (seg_start seg, seg_end seg),
                     posts := posts w @ [DeepgramPost (seg_start seg, seg_end seg) model ?lp],
                     replies := rest\<rparr>"
    by (simp add: w2_def w1_def)
  show ?thesis
    unfolding w2[symmetric]
    by (simp add: try_transcribe_def e1 cp Let_def split: prod.splits sum.splits)
qed

lemma retry_once:
  assumes nc: "\<not> cancel_requested" and d: "rnd 0.01 \<le> dur rnd seg"
    and nk: "\<not> contains ''kotoba'' model" and key: "env_DEEPGRAM_API_KEY env \<noteq> []"
    and cut1: "ffmpeg_cut ext (seg_start seg) (dur rnd seg) = None"
    and rep: "replies w = Reply 200 body (Some t) # rest" and empty: "strip t = []"
    and win: "empty_retry_window rnd seg = (rs, re)"
    and d2: "rnd 0.01 \<le> max 0 (fsub rnd re rs)"
    and cut2: "ffmpeg_cut ext rs (max 0 (fsub rnd re rs)) = None"
  shows "posts (snd (transcribe_task rnd ext env cancel_requested idx seg model language w))
         = posts w
           @ [DeepgramPost (seg_start seg, seg_end seg) model
                (if language = ''auto'' then DetectLanguage else Language language),
              DeepgramPost (rs, re) model DetectLanguage]"
    and "cuts (snd (transcribe_task rnd ext env cancel_requested idx seg model language w))
         = cuts w @ [(seg_start seg, seg_end seg), (rs, re)]"
proof -
  let ?lp = "if language = ''auto'' then DetectLanguage else Language language"
  define w2 where "w2 = w\<lparr>cuts := cuts w @ [(seg_start seg, seg_end seg)],
                     seg_file := Some (seg_start seg, seg_end seg),
                     posts := posts w @ [DeepgramPost (seg_start seg, seg_end seg) model ?lp],
                     replies := rest\<rparr>"
  define w3 where "w3 = w2\<lparr>cuts := cuts w2 @ [(rs, re)], seg_file := Some (rs, re)\<rparr>"
  have e2: "extract_segment_wav rnd ext rs re w2 = (Inr (), w3)"
    unfolding w3_def by (rule extract_ok[OF d2 cut2])
  have tt: "snd (try_transcribe rnd ext env idx seg model language w)
            = snd (transcribe_with_deepgram env model ''auto'' w3)"
    using first_request[OF nc d nk key cut1 rep empty win, of idx language]
    unfolding w2_def[symmetric] by (simp add: e2)
  have sf3: "seg_file w3 = Some (rs, re)" by (simp add: w3_def)
  have p3: "posts (snd (transcribe_with_deepgram env model ''auto'' w3))
            = posts w3 @ [DeepgramPost (rs, re) model DetectLanguage]"
    using deepgram_posts(1)[OF key sf3, of model "''auto''"] by simp
  have c3: "cuts (snd (transcribe_with_deepgram env model ''auto'' w3)) = cuts w3"
    by (rule deepgram_posts(2)[OF key sf3])
  show "posts (snd (transcribe_task rnd ext env cancel_requested idx seg model language w))
         = posts w @ [DeepgramPost (seg_start seg, seg_end seg) model ?lp,
                      DeepgramPost (rs, re) model DetectLanguage]"
    unfolding transcribe_task_posts(1)[OF nc d] tt p3 by (simp add: w3_def w2_def)
  show "cuts (snd (transcribe_task rnd ext env cancel_requested idx seg model language w))
         = cuts w @ [(seg_start seg, seg_end seg), (rs, re)]"
    unfolding transcribe_task_posts(2)[OF nc d] tt c3 by (simp add: w3_def w2_def)
qed

lemma no_retry_without_cut:
  assumes nc: "\<not> cancel_requested" and d: "rnd 0.01 \<le> dur rnd seg"
    and nk: "\<not> contains ''kotoba'' model" and key: "env_DEEPGRAM_API_KEY env \<noteq> []"
    and cut1: "ffmpeg_cut ext (seg_start seg) (dur rnd seg) = None"
    and rep: "replies w = Reply 200 body (Some t) # rest" and empty: "strip t = []"
    and win: "empty_retry_window rnd seg = (rs, re)"
    and no: "\<not> (rnd 0.01 \<le> max 0 (fsub rnd re rs)
                \<and> ffmpeg_cut ext rs (max 0 (fsub rnd re rs)) = None)"
  shows "posts (snd (transcribe_task rnd ext env cancel_requested idx seg model language w))
         = posts w
           @ [DeepgramPost (seg_start seg, seg_end seg) model
                (if language = ''auto'' then DetectLanguage else Language language)]"
proof -
  let ?lp = "if language = ''auto'' then DetectLanguage else Language language"
  define w2 where "w2 = w\<lparr>cuts := cuts w @ [(seg_start seg, seg_end seg)],
                     seg_file := Some (seg_start seg, seg_end seg),
                     posts := posts w @ [DeepgramPost (seg_start seg, seg_end seg) model ?lp],
                     replies := rest\<rparr>"
  from extract_fails[OF no, of w2] obtain e where
    e2: "extract_segment_wav rnd ext rs re w2 = (Inl e, w2)" by blast
  have tt: "snd (try_transcribe rnd ext env idx seg model language w) = w2"
    using first_request[OF nc d nk key cut1 rep empty win, of idx language]
    unfolding w2_def[symmetric] by (simp add: e2)
  show ?thesis
    unfolding transcribe_task_posts(1)[OF nc d] tt by (simp add: w2_def)
qed

lemma hf_no_retry:
  assumes "contains ''kotoba'' model"
  shows "\<exists>k \<le> 1. posts (snd (transcribe_task rnd ext env cancel_requested idx seg model language w))
           = posts w @ replicate k (HfPost (seg_start seg, seg_end seg))"
proof (cases "cancel_requested \<or> dur rnd seg < rnd 0.01")
  case True
  then have "posts (snd (transcribe_task rnd ext env cancel_requested idx seg model language w))
             = posts w @ replicate 0 (HfPost (seg_start seg, seg_end seg))"
    by (auto simp: transcribe_task_def)
  then show ?thesis by blast
next
  case False
  then have tk: "posts (snd (transcribe_task rnd ext env cancel_requested idx seg model language w))
            = posts (snd (try_transcribe rnd ext env idx seg model language w))"
    by (intro transcribe_task_posts) simp_all
  obtain r w1 where e: "extract_segment_wav rnd ext (seg_start seg) (seg_end seg) w = (r, w1)"
    by (cases "extract_segment_wav rnd ext (seg_start seg) (seg_end seg) w") auto
  have pw1: "posts w1 = posts w"
    using extract_posts[of rnd ext "seg_start seg" "seg_end seg" w] e by simp
  show ?thesis
  proof (cases r)
    case (Inl x)
    then have "posts (snd (try_transcribe rnd ext env idx seg model language w))
               = posts w @ replicate 0 (HfPost (seg_start seg, seg_end seg))"
      by (simp add: try_transcribe_posts e pw1)
    with tk show ?thesis by (metis zero_le_one)
  next
    case (Inr u)
    then have sf: "seg_file w1 = Some (seg_start seg, seg_end seg)"
      using extract_seg_file[of rnd ext "seg_start seg" "seg_end seg" w u] e by simp
    have "posts (snd (try_transcribe rnd ext env idx seg model language w))
          = posts (snd (transcribe_with_hf env w1))"
      using assms Inr by (simp add: try_transcribe_posts e call_provider_def)
    with hf_posts[of env w1] sf pw1 tk show ?thesis by simp
  qed
qed

lemma retry_example:
  "posts (snd (transcribe_task exact \<lparr>html_unescape = id, ffmpeg_cut = (\<lambda>s d. None)\<rparr>
                 (default_environ\<lparr>env_DEEPGRAM_API_KEY := ''k''\<rparr>) False 0 (SpeechSeg 0 1)
                 ''nova-2-general'' ''en''
                 \<lparr>replies = [Reply 200 [] (Some [])], posts = [], cuts = [], seg_file = None\<rparr>))
   = [DeepgramPost (0, 1) ''nova-2-general'' (Language ''en''),
      DeepgramPost (0, 61 / 50) ''nova-2-general'' DetectLanguage]"
proof -
  have d: "exact 0.01 \<le> dur exact (SpeechSeg 0 1)"
    by (simp add: dur_def fsub_def exact_def)
  have k: "\<not> contains ''kotoba'' ''nova-2-general''" by code_simp
  have key: "env_DEEPGRAM_API_KEY (default_environ\<lparr>env_DEEPGRAM_API_KEY := ''k''\<rparr>) \<noteq> []"
    by simp
  have s: "strip [] = []" by (simp add: strip_def)
  have win: "empty_retry_window exact (SpeechSeg 0 1) = (0, 61 / 50)"
    by (simp add: empty_retry_window_def retry_pad_def dur_def fsub_def fadd_def exact_def Let_def)
  have d2: "exact 0.01 \<le> max 0 (fsub exact (61 / 50) 0)" by (simp add: fsub_def exact_def)
  show ?thesis
    by (subst retry_once(1)[OF _ d k key _ _ s win d2, where body = "[]" and rest = "[]"])
       simp_all
qed

text \<open>
  Claim C5, amended. For a model whose name does not contain \<open>kotoba\<close>: when the first
  answer has status 200 and an empty transcript, the segment is cut again on the window
  of \<open>_empty_retry_window\<close>. Its pad is \<open>0.22\<close> if the duration \<open>seg.dur\<close>, as the code
  computes it, is below the float \<open>1.2\<close>, \<open>0.35\<close> if it is below \<open>3.0\<close>, and \<open>0.50\<close>
  otherwise; the window goes from the start less the pad, clipped at zero, to the end
  plus the pad (or 0.02 after the window's start, if that is later), all sums in
  floating-point arithmetic. If that cut succeeds, exactly one more request is made: it
  carries the new window and asks for language detection, whatever the language of the
  first request was, and whatever its answer is, no third request follows. If the cut
  fails, no second request is made. For a model whose name contains \<open>kotoba\<close> at most one
  request is made, to the other provider.
\<close>

theorem empty_transcript_retry:
  "(let pad = (if dur rnd seg < rnd 1.2 then rnd 0.22
               else if dur rnd seg < 3.0 then rnd 0.35 else 0.50);
        rs = max 0 (fsub rnd (seg_start seg) pad);
        re = max (fadd rnd rs (rnd 0.02)) (fadd rnd (seg_end seg) pad);
        first = DeepgramPost (seg_start seg, seg_end seg) model
                  (if language = ''auto'' then DetectLanguage else Language language);
        recut = (rnd 0.01 \<le> max 0 (fsub rnd re rs)
                 \<and> ffmpeg_cut ext rs (max 0 (fsub rnd re rs)) = None);
        w' = snd (transcribe_task rnd ext env cancel_requested idx seg model language w)
    in
      (\<not> cancel_requested \<and> rnd 0.01 \<le> dur rnd seg
       \<and> \<not> contains ''kotoba'' model \<and> env_DEEPGRAM_API_KEY env \<noteq> []
       \<and> ffmpeg_cut ext (seg_start seg) (dur rnd seg) = None
       \<and> replies w = Reply 200 body (Some t) # rest \<and> strip t = []
       \<longrightarrow>
         empty_retry_window rnd seg = (rs, re)
         \<and> (recut \<longrightarrow> posts w' = posts w @ [first, DeepgramPost (rs, re) model DetectLanguage]
                       \<and> cuts w' = cuts w @ [(seg_start seg, seg_end seg), (rs, re)])
         \<and> (\<not> recut \<longrightarrow> posts w' = posts w @ [first]))
      \<and> (contains ''kotoba'' model \<longrightarrow>
           (\<exists>k \<le> 1. posts w' = posts w @ replicate k (HfPost (seg_start seg, seg_end seg)))))"
proof -
  define pad where "pad = (if dur rnd seg < rnd 1.2 then rnd 0.22
               else if dur rnd seg < 3.0 then rnd 0.35 else 0.50)"
  define rs where "rs = max 0 (fsub rnd (seg_start seg) pad)"
  define re where "re = max (fadd rnd rs (rnd 0.02)) (fadd rnd (seg_end seg) pad)"
  have win: "empty_retry_window rnd seg = (rs, re)"
    by (simp add: empty_retry_window_def retry_pad_def Let_def pad_def rs_def re_def)
  note a = retry_once[of cancel_requested rnd seg model env ext w body t rest rs re idx language,
                      OF _ _ _ _ _ _ _ win]
  note b = no_retry_without_cut[of cancel_requested rnd seg model env ext w body t rest rs re
                                   idx language, OF _ _ _ _ _ _ _ win]
  note c = hf_no_retry[of model rnd ext env cancel_requested idx seg language w]
  show ?thesis
    unfolding Let_def pad_def[symmetric] rs_def[symmetric] re_def[symmetric]
    using win a b c by blast
qed

text \<open>
  The theorem in exact arithmetic for the segment \<open>[2, 3]\<close>, whose duration and window
  are far from the thresholds: the retry carries the window \<open>[1.78, 3.22]\<close>.
\<close>

theorem empty_transcript_retry_witness:
  "posts (snd (transcribe_task exact \<lparr>html_unescape = id, ffmpeg_cut = (\<lambda>s d. None)\<rparr>
                 (default_environ\<lparr>env_DEEPGRAM_API_KEY := ''k''\<rparr>) False 0 (SpeechSeg 2 3)
                 ''nova-2-general'' ''en''
                 \<lparr>replies = [Reply 200 [] (Some [32])], posts = [], cuts = [], seg_file = None\<rparr>))
   = [DeepgramPost (2, 3) ''nova-2-general'' (Language ''en''),
      DeepgramPost (89 / 50, 161 / 50) ''nova-2-general'' DetectLanguage]"
proof -
  have k: "\<not> contains ''kotoba'' ''nova-2-general''" by code_simp
  have s: "strip [32] = []" by (simp add: strip_def is_space_def)
  show ?thesis
    using empty_transcript_retry [of exact "SpeechSeg 2 3" "''nova-2-general''" "''en''"
        "\<lparr>html_unescape = id, ffmpeg_cut = (\<lambda>s d. None)\<rparr>"
        "default_environ\<lparr>env_DEEPGRAM_API_KEY := ''k''\<rparr>" False 0
        "\<lparr>replies = [Reply 200 [] (Some [32])], posts = [], cuts = [], seg_file = None\<rparr>"
        "[]" "[32]" "[]"] k s
    by (simp add: Let_def dur_def fsub_def fadd_def exact_def)
qed

text \<open>
  Claim C5 as stated fails for a segment that starts less than the pad after the start of
  the file: for the segment \<open>[0, 1]\<close> the pad is \<open>0.22\<close>, and the second request carries the
  window \<open>[0, 1.22]\<close>, not the symmetric \<open>[-0.22, 1.22]\<close>.
\<close>

theorem empty_transcript_retry_counterexample:
  "posts (snd (transcribe_task exact \<lparr>html_unescape = id, ffmpeg_cut = (\<lambda>s d. None)\<rparr>
                 (default_environ\<lparr>env_DEEPGRAM_API_KEY := ''k''\<rparr>) False 0 (SpeechSeg 0 1)
                 ''nova-2-general'' ''en''
                 \<lparr>replies = [Reply 200 [] (Some [])], posts = [], cuts = [], seg_file = None\<rparr>))
   = [DeepgramPost (0, 1) ''nova-2-general'' (Language ''en''),
      DeepgramPost (0, 61 / 50) ''nova-2-general'' DetectLanguage]
   \<and> DeepgramPost (0, 61 / 50) ''nova-2-general'' DetectLanguage
     \<noteq> DeepgramPost (0 - 0.22, 1 + 0.22) ''nova-2-general'' DetectLanguage"
  unfolding retry_example by simp

end
